theory Spec2Isabelle
  imports Complex_Main "HOL-Library.Monad_Syntax"
begin

section \<open>Values, arrays and parallel loops\<close>

text \<open>
  The code computes on \<^verbatim>\<open>real\<close>, a floating type. The model computes on the real
  numbers: rounding and overflow are not modelled. What is modelled is where a result
  stops being a finite number: a division by zero and a square root of a negative operand
  give Inf or NaN in the code and \<open>None\<close> here, and \<open>None\<close> propagates through
  everything computed from it, as NaN does. A value stored by a kernel is therefore a
  \<open>real option\<close>; the coordinate and state arrays that the kernels only read hold reals.
\<close>

definition fdiv :: "real \<Rightarrow> real \<Rightarrow> real option" where
  "fdiv a b = (if b = 0 then None else Some (a / b))"

definition SQRT :: "real \<Rightarrow> real option" where
  "SQRT a = (if a < 0 then None else Some (sqrt a))"

definition FABS :: "real \<Rightarrow> real" where
  "FABS a = \<bar>a\<bar>"

definition FMAX :: "real \<Rightarrow> real \<Rightarrow> real" where
  "FMAX a b = max a b"

datatype dir = IDIR | JDIR | KDIR

datatype geometry = CARTESIAN | CYLINDRICAL | POLAR | SPHERICAL

text \<open>
  The compile-time configuration. None of these macros is defined in the files at hand
  (they come from \<^verbatim>\<open>idefix.hpp\<close>), so each one is a parameter of the model:
  the geometry selector, the number of active dimensions, the face offsets of the three
  directions, the energy switch, the length of a state vector and the positions of
  density and pressure in it.
\<close>

record config =
  GEOMETRY :: geometry
  DIMENSIONS :: nat
  IOFFSET :: int
  JOFFSET :: int
  KOFFSET :: int
  HAVE_ENERGY :: bool
  NVAR :: nat
  RHO :: nat
  PRS :: nat

text \<open>
  Modelled from the spec: the macro \<^verbatim>\<open>D_EXPAND(a, b, c)\<close> is not in the files at hand. It
  pastes its first argument, its first two or all three according to the number of
  active dimensions ("inactive axes contribute a unit factor"); the second and third
  arguments are written with a leading \<^verbatim>\<open>*\<close>, so the result is a product.
\<close>

definition D_EXPAND :: "nat \<Rightarrow> real \<Rightarrow> real \<Rightarrow> real \<Rightarrow> real" where
  "D_EXPAND dims a b c = (if dims = 1 then a else if dims = 2 then a * b else a * b * c)"

text \<open>
  The fields of \<^verbatim>\<open>DataBlock\<close> that the two functions touch. An array is a function of
  its indices (\<^verbatim>\<open>int\<close> in the code); the leading index of a 4D array is the variable
  number. \<^verbatim>\<open>x\<close>, \<^verbatim>\<open>s\<close>, \<^verbatim>\<open>A\<close> and \<^verbatim>\<open>end\<close> are renamed, the rest keep their names.
\<close>

record DataBlock =
  np_tot :: "dir \<Rightarrow> int"
  beg :: "dir \<Rightarrow> int"
  end_idx :: "dir \<Rightarrow> int"
  x_arr :: "dir \<Rightarrow> int \<Rightarrow> real"
  dx :: "dir \<Rightarrow> int \<Rightarrow> real"
  xr :: "dir \<Rightarrow> int \<Rightarrow> real"
  xl :: "dir \<Rightarrow> int \<Rightarrow> real"
  dV :: "int \<Rightarrow> int \<Rightarrow> int \<Rightarrow> real option"
  A_arr :: "dir \<Rightarrow> int \<Rightarrow> int \<Rightarrow> int \<Rightarrow> real option"
  xgc :: "dir \<Rightarrow> int \<Rightarrow> real option"
  rt :: "int \<Rightarrow> real option"
  sm :: "int \<Rightarrow> real option"
  s_arr :: "int \<Rightarrow> real option"
  dmu :: "int \<Rightarrow> real option"
  PrimL :: "nat \<Rightarrow> int \<Rightarrow> int \<Rightarrow> int \<Rightarrow> real"
  PrimR :: "nat \<Rightarrow> int \<Rightarrow> int \<Rightarrow> int \<Rightarrow> real"
  FluxRiemann :: "nat \<Rightarrow> int \<Rightarrow> int \<Rightarrow> int \<Rightarrow> real option"
  cMax :: "int \<Rightarrow> int \<Rightarrow> int \<Rightarrow> real option"

text \<open>
  \<^verbatim>\<open>idefix_for(name, kb, ke, jb, je, ib, ie, body)\<close> runs \<open>body k j i\<close> for
  \<open>kb \<le> k < ke\<close>, \<open>jb \<le> j < je\<close>, \<open>ib \<le> i < ie\<close>; the one-dimensional form runs
  \<open>body i\<close> for \<open>b \<le> i < e\<close>. The model visits the indices in the order of the loop
  nest, \<open>k\<close> outermost, and threads the data block through the bodies.
\<close>

definition idefix_range3 ::
  "int \<Rightarrow> int \<Rightarrow> int \<Rightarrow> int \<Rightarrow> int \<Rightarrow> int \<Rightarrow> (int \<times> int \<times> int) list" where
  "idefix_range3 kb ke jb je ib ie =
     List.product [kb..ke - 1] (List.product [jb..je - 1] [ib..ie - 1])"

definition idefix_for3 ::
  "int \<Rightarrow> int \<Rightarrow> int \<Rightarrow> int \<Rightarrow> int \<Rightarrow> int \<Rightarrow> (int \<Rightarrow> int \<Rightarrow> int \<Rightarrow> 'st \<Rightarrow> 'st) \<Rightarrow> 'st \<Rightarrow> 'st" where
  "idefix_for3 kb ke jb je ib ie body st =
     fold (\<lambda>(k, j, i). body k j i) (idefix_range3 kb ke jb je ib ie) st"

definition idefix_for1 :: "int \<Rightarrow> int \<Rightarrow> (int \<Rightarrow> 'st \<Rightarrow> 'st) \<Rightarrow> 'st \<Rightarrow> 'st" where
  "idefix_for1 b e body st = fold body [b..e - 1] st"

definition write1 :: "(int \<Rightarrow> 'v) \<Rightarrow> int \<Rightarrow> 'v \<Rightarrow> (int \<Rightarrow> 'v)" where
  "write1 arr i v = (\<lambda>i'. if i' = i then v else arr i')"

definition write3 ::
  "(int \<Rightarrow> int \<Rightarrow> int \<Rightarrow> 'v) \<Rightarrow> int \<Rightarrow> int \<Rightarrow> int \<Rightarrow> 'v \<Rightarrow> (int \<Rightarrow> int \<Rightarrow> int \<Rightarrow> 'v)" where
  "write3 arr k j i v = (\<lambda>k' j' i'. if k' = k \<and> j' = j \<and> i' = i then v else arr k' j' i')"

section \<open>The TVDLF Riemann solver (tvdlfHD.hpp)\<close>

text \<open>
  A local array \<^verbatim>\<open>real a[NVAR]\<close> is a function from positions to values; the code
  reads and writes the positions below \<^verbatim>\<open>NVAR\<close>.

  \<^verbatim>\<open>K_PrimToCons(u, v, gamma_m1)\<close> and \<^verbatim>\<open>K_Flux(f, v, u, C2Iso, Xn)\<close> belong to the
  physics module, which is not in the files at hand. They are parameters of the model:
  \<open>K_PrimToCons v gamma_m1\<close> is the conservative vector written to \<^verbatim>\<open>u\<close> and
  \<open>K_Flux v u C2Iso Xn\<close> the flux vector written to \<^verbatim>\<open>f\<close>.
\<close>

type_synonym vec = "nat \<Rightarrow> real"

type_synonym prim_to_cons = "vec \<Rightarrow> real \<Rightarrow> vec"

type_synonym flux_fun = "vec \<Rightarrow> vec \<Rightarrow> real \<Rightarrow> nat \<Rightarrow> vec"

text \<open>
  \<open>TvdlfHD_face\<close> is the body of the kernel between the reads and the writes: the
  averaged state, then steps 2 to 5 of the source. It returns the flux vector and
  \<^verbatim>\<open>cmax\<close>, or \<open>None\<close> when the wave speed is not a finite number (the flux, a
  multiple of \<^verbatim>\<open>cmax\<close> away from a finite value, is then not finite either).
\<close>

definition TvdlfHD_face ::
  "config \<Rightarrow> prim_to_cons \<Rightarrow> flux_fun \<Rightarrow> nat \<Rightarrow> real \<Rightarrow> real \<Rightarrow> vec \<Rightarrow> vec \<Rightarrow> (vec \<times> real) option" where
  "TvdlfHD_face cfg K_PrimToCons K_Flux Xn gamma C2Iso vL vR =
     (let gamma_m1 = gamma - 1;
          vRL = (\<lambda>nv. (1 / 2) * (vL nv + vR nv));
          uL = K_PrimToCons vL gamma_m1;
          uR = K_PrimToCons vR gamma_m1;
          fluxL = K_Flux vL uL C2Iso Xn;
          fluxR = K_Flux vR uR C2Iso Xn
      in do {
        cRL \<leftarrow> (if HAVE_ENERGY cfg
                then do { q \<leftarrow> fdiv (vRL (PRS cfg)) (vRL (RHO cfg));
                          SQRT ((gamma_m1 + 1) * q) }
                else SQRT C2Iso);
        let cmax = FMAX (FABS (vRL Xn + cRL)) (FABS (vRL Xn - cRL));
        Some (\<lambda>nv. (1 / 2) * (fluxL nv + fluxR nv - cmax * (uR nv - uL nv)), cmax)
      })"

text \<open>
  The kernel at face \<open>(k, j, i)\<close>. The first loop over \<^verbatim>\<open>nv\<close> copies the two states
  out of \<^verbatim>\<open>PrimL\<close> and \<^verbatim>\<open>PrimR\<close>: \<open>vL\<close> and \<open>vR\<close> are the two arrays seen at the
  face. The last loop stores the \<^verbatim>\<open>NVAR\<close> flux components one after the other, then
  the wave speed is stored.
\<close>

definition store_flux ::
  "nat \<Rightarrow> int \<Rightarrow> int \<Rightarrow> int \<Rightarrow> (nat \<Rightarrow> real option)
     \<Rightarrow> (nat \<Rightarrow> int \<Rightarrow> int \<Rightarrow> int \<Rightarrow> real option) \<Rightarrow> (nat \<Rightarrow> int \<Rightarrow> int \<Rightarrow> int \<Rightarrow> real option)" where
  "store_flux n k j i flux Flux =
     fold (\<lambda>nv Fl. Fl(nv := write3 (Fl nv) k j i (flux nv))) [0..<n] Flux"

definition TVDLF_Kernel ::
  "config \<Rightarrow> prim_to_cons \<Rightarrow> flux_fun \<Rightarrow> nat \<Rightarrow> real \<Rightarrow> real
     \<Rightarrow> int \<Rightarrow> int \<Rightarrow> int \<Rightarrow> DataBlock \<Rightarrow> DataBlock" where
  "TVDLF_Kernel cfg K_PrimToCons K_Flux Xn gamma C2Iso k j i data =
     (let vL = (\<lambda>nv. PrimL data nv k j i);
          vR = (\<lambda>nv. PrimR data nv k j i);
          res = TvdlfHD_face cfg K_PrimToCons K_Flux Xn gamma C2Iso vL vR
      in data\<lparr>FluxRiemann :=
                 store_flux (NVAR cfg) k j i (\<lambda>nv. map_option (\<lambda>r. fst r nv) res)
                   (FluxRiemann data),
               cMax := write3 (cMax data) k j i (map_option snd res)\<rparr>)"

text \<open>
  The sweep. \<^verbatim>\<open>DIR\<close> is a template parameter compared with the three direction
  constants; \<^verbatim>\<open>Xn\<close> is the position of the normal velocity in a state vector. The
  template parameters \<^verbatim>\<open>Xt\<close> and \<^verbatim>\<open>Xb\<close> are not used by the body and are left out.
  \<open>TvdlfHD_range\<close> is the list of the faces that the sweep visits.
\<close>

definition TvdlfHD_range :: "dir \<Rightarrow> DataBlock \<Rightarrow> (int \<times> int \<times> int) list" where
  "TvdlfHD_range DIR data =
     (let ioffset = (if DIR = IDIR then 1 else 0);
          joffset = (if DIR = JDIR then 1 else 0);
          koffset = (if DIR = KDIR then 1 else 0)
      in idefix_range3 (beg data KDIR) (end_idx data KDIR + koffset)
                       (beg data JDIR) (end_idx data JDIR + joffset)
                       (beg data IDIR) (end_idx data IDIR + ioffset))"

definition TvdlfHD ::
  "config \<Rightarrow> prim_to_cons \<Rightarrow> flux_fun \<Rightarrow> dir \<Rightarrow> nat \<Rightarrow> real \<Rightarrow> real \<Rightarrow> DataBlock \<Rightarrow> DataBlock" where
  "TvdlfHD cfg K_PrimToCons K_Flux DIR Xn gamma C2Iso data =
     (let ioffset = (if DIR = IDIR then 1 else 0);
          joffset = (if DIR = JDIR then 1 else 0);
          koffset = (if DIR = KDIR then 1 else 0)
      in idefix_for3 (beg data KDIR) (end_idx data KDIR + koffset)
                     (beg data JDIR) (end_idx data JDIR + joffset)
                     (beg data IDIR) (end_idx data IDIR + ioffset)
                     (TVDLF_Kernel cfg K_PrimToCons K_Flux Xn gamma C2Iso) data)"

section \<open>The geometry of the grid (makeGeometry.cpp)\<close>

text \<open>
  Each kernel of \<^verbatim>\<open>DataBlock::MakeGeometry\<close> is given by the values it stores (one
  function per stored array) and by the update of the data block at one index. The
  preprocessor branches on \<^verbatim>\<open>GEOMETRY\<close> become a case distinction. The local names of
  the source are kept: \<^verbatim>\<open>x1p\<close>, \<^verbatim>\<open>x1m\<close> are \<^verbatim>\<open>xr[IDIR]\<close>, \<^verbatim>\<open>xl[IDIR]\<close> and so on.
\<close>

definition Volumes_val :: "config \<Rightarrow> DataBlock \<Rightarrow> int \<Rightarrow> int \<Rightarrow> int \<Rightarrow> real option" where
  "Volumes_val cfg d k j i =
     (let dx1 = dx d IDIR; dx2 = dx d JDIR; dx3 = dx d KDIR;
          x1p = xr d IDIR; x2p = xr d JDIR;
          x1m = xl d IDIR; x2m = xl d JDIR;
          dims = DIMENSIONS cfg
      in case GEOMETRY cfg of
           CARTESIAN \<Rightarrow> Some (D_EXPAND dims (dx1 i) (dx2 j) (dx3 k))
         | CYLINDRICAL \<Rightarrow>
             do { dVr \<leftarrow> fdiv (FABS (x1p i * x1p i - x1m i * x1m i)) 2;
                  Some (D_EXPAND dims dVr (dx2 j) 1) }
         | POLAR \<Rightarrow>
             do { dVr \<leftarrow> fdiv (FABS (x1p i * x1p i - x1m i * x1m i)) 2;
                  Some (D_EXPAND dims dVr (dx2 j) (dx3 k)) }
         | SPHERICAL \<Rightarrow>
             do { dVr \<leftarrow> fdiv (FABS (x1p i * x1p i * x1p i - x1m i * x1m i * x1m i)) 3;
                  let dmu' = FABS (cos (x2m j) - cos (x2p j));
                  Some (D_EXPAND dims dVr dmu' (dx3 k)) })"

definition Volumes :: "config \<Rightarrow> int \<Rightarrow> int \<Rightarrow> int \<Rightarrow> DataBlock \<Rightarrow> DataBlock" where
  "Volumes cfg k j i d = d\<lparr>dV := write3 (dV d) k j i (Volumes_val cfg d k j i)\<rparr>"

definition x1gc_val :: "config \<Rightarrow> DataBlock \<Rightarrow> int \<Rightarrow> real option" where
  "x1gc_val cfg d i =
     (let x1 = x_arr d IDIR; dx1 = dx d IDIR
      in case GEOMETRY cfg of
           CARTESIAN \<Rightarrow> Some (x1 i)
         | CYLINDRICAL \<Rightarrow>
             do { q \<leftarrow> fdiv (dx1 i * dx1 i) (12 * x1 i); Some (x1 i + q) }
         | POLAR \<Rightarrow>
             do { q \<leftarrow> fdiv (dx1 i * dx1 i) (12 * x1 i); Some (x1 i + q) }
         | SPHERICAL \<Rightarrow>
             do { q \<leftarrow> fdiv (2 * x1 i * dx1 i * dx1 i) (12 * x1 i * x1 i + dx1 i * dx1 i);
                  Some (x1 i + q) })"

definition rt_val :: "DataBlock \<Rightarrow> int \<Rightarrow> real option" where
  "rt_val d i =
     (let x1p = xr d IDIR; x1m = xl d IDIR
      in do { q \<leftarrow> fdiv (x1p i * x1p i * x1p i - x1m i * x1m i * x1m i)
                        (x1p i * x1p i - x1m i * x1m i);
              fdiv q (3 / 2) })"

definition GeometricalCentersX1 :: "config \<Rightarrow> int \<Rightarrow> DataBlock \<Rightarrow> DataBlock" where
  "GeometricalCentersX1 cfg i d =
     (let d' = d\<lparr>xgc := (xgc d)(IDIR := write1 (xgc d IDIR) i (x1gc_val cfg d i))\<rparr>
      in if GEOMETRY cfg = SPHERICAL then d'\<lparr>rt := write1 (rt d) i (rt_val d i)\<rparr> else d')"

definition x2gc_val :: "config \<Rightarrow> DataBlock \<Rightarrow> int \<Rightarrow> real option" where
  "x2gc_val cfg d j =
     (let x2 = x_arr d JDIR; x2p = xr d JDIR; x2m = xl d JDIR
      in if GEOMETRY cfg \<noteq> SPHERICAL then Some (x2 j)
         else (let xL = x2m j; xR = x2p j
               in fdiv (sin xR - sin xL + xL * cos xL - xR * cos xR) (cos xL - cos xR)))"

definition GeometricalCentersX2 :: "config \<Rightarrow> int \<Rightarrow> DataBlock \<Rightarrow> DataBlock" where
  "GeometricalCentersX2 cfg j d =
     (let x2 = x_arr d JDIR; x2p = xr d JDIR; x2m = xl d JDIR;
          d' = d\<lparr>xgc := (xgc d)(JDIR := write1 (xgc d JDIR) j (x2gc_val cfg d j))\<rparr>
      in if GEOMETRY cfg \<noteq> SPHERICAL then d'
         else (let xL = x2m j; xR = x2p j
               in d'\<lparr>sm := write1 (sm d) j (Some (FABS (sin xL))),
                      s_arr := write1 (s_arr d) j (Some (FABS (sin (x2 j)))),
                      dmu := write1 (dmu d) j (Some (FABS (cos xL - cos xR)))\<rparr>))"

definition GeometricalCentersX3 :: "int \<Rightarrow> DataBlock \<Rightarrow> DataBlock" where
  "GeometricalCentersX3 k d =
     d\<lparr>xgc := (xgc d)(KDIR := write1 (xgc d KDIR) k (Some (x_arr d KDIR k)))\<rparr>"

text \<open>The face areas. \<^verbatim>\<open>end\<close> is \<^verbatim>\<open>np_tot\<close> of the direction of the kernel.\<close>

definition AreaX1_val :: "config \<Rightarrow> DataBlock \<Rightarrow> int \<Rightarrow> int \<Rightarrow> int \<Rightarrow> real option" where
  "AreaX1_val cfg d k j i =
     (let dx2 = dx d JDIR; dx3 = dx d KDIR;
          x1p = xr d IDIR; x2p = xr d JDIR;
          x1m = xl d IDIR; x2m = xl d JDIR;
          dims = DIMENSIONS cfg;
          end' = np_tot d IDIR
      in case GEOMETRY cfg of
           CARTESIAN \<Rightarrow> Some (D_EXPAND dims 1 (dx2 j) (dx3 k))
         | CYLINDRICAL \<Rightarrow>
             (if i = end' then Some (D_EXPAND dims (FABS (x1p (i - 1))) (dx2 j) 1)
              else Some (D_EXPAND dims (FABS (x1m i)) (dx2 j) 1))
         | POLAR \<Rightarrow>
             (if i = end' then Some (D_EXPAND dims (FABS (x1p (i - 1))) (dx2 j) (dx3 k))
              else Some (D_EXPAND dims (FABS (x1m i)) (dx2 j) (dx3 k)))
         | SPHERICAL \<Rightarrow>
             (let dmu' = FABS (cos (x2m j) - cos (x2p j))
              in if i = end' then Some (D_EXPAND dims (x1p (i - 1) * x1p (i - 1)) dmu' (dx3 k))
                 else Some (D_EXPAND dims (x1m i * x1m i) dmu' (dx3 k))))"

definition AreaX1 :: "config \<Rightarrow> int \<Rightarrow> int \<Rightarrow> int \<Rightarrow> DataBlock \<Rightarrow> DataBlock" where
  "AreaX1 cfg k j i d =
     d\<lparr>A_arr := (A_arr d)(IDIR := write3 (A_arr d IDIR) k j i (AreaX1_val cfg d k j i))\<rparr>"

definition AreaX2_val :: "config \<Rightarrow> DataBlock \<Rightarrow> int \<Rightarrow> int \<Rightarrow> int \<Rightarrow> real option" where
  "AreaX2_val cfg d k j i =
     (let x1 = x_arr d IDIR; dx1 = dx d IDIR; dx3 = dx d KDIR;
          x2p = xr d JDIR; x2m = xl d JDIR;
          dims = DIMENSIONS cfg;
          end' = np_tot d JDIR
      in case GEOMETRY cfg of
           CARTESIAN \<Rightarrow> Some (D_EXPAND dims (dx1 i) 1 (dx3 k))
         | CYLINDRICAL \<Rightarrow> Some (D_EXPAND dims (FABS (x1 i)) (dx1 i) 1)
         | POLAR \<Rightarrow> Some (D_EXPAND dims (dx1 i) 1 (dx3 k))
         | SPHERICAL \<Rightarrow>
             (if j = end'
              then Some (D_EXPAND dims (x1 i * dx1 i) (FABS (sin (x2p (j - 1)))) (dx3 k))
              else Some (D_EXPAND dims (x1 i * dx1 i) (FABS (sin (x2m j))) (dx3 k))))"

definition AreaX2 :: "config \<Rightarrow> int \<Rightarrow> int \<Rightarrow> int \<Rightarrow> DataBlock \<Rightarrow> DataBlock" where
  "AreaX2 cfg k j i d =
     d\<lparr>A_arr := (A_arr d)(JDIR := write3 (A_arr d JDIR) k j i (AreaX2_val cfg d k j i))\<rparr>"

definition AreaX3_val :: "config \<Rightarrow> DataBlock \<Rightarrow> int \<Rightarrow> int \<Rightarrow> int \<Rightarrow> real option" where
  "AreaX3_val cfg d k j i =
     (let x1 = x_arr d IDIR; dx1 = dx d IDIR; dx2 = dx d JDIR;
          dims = DIMENSIONS cfg
      in case GEOMETRY cfg of
           CARTESIAN \<Rightarrow> Some (D_EXPAND dims (dx1 i) (dx2 j) 1)
         | CYLINDRICAL \<Rightarrow> Some 1
         | POLAR \<Rightarrow> Some (D_EXPAND dims (x1 i * dx1 i) (dx2 j) 1)
         | SPHERICAL \<Rightarrow> Some (D_EXPAND dims (x1 i * dx1 i) (dx2 j) 1))"

definition AreaX3 :: "config \<Rightarrow> int \<Rightarrow> int \<Rightarrow> int \<Rightarrow> DataBlock \<Rightarrow> DataBlock" where
  "AreaX3 cfg k j i d =
     d\<lparr>A_arr := (A_arr d)(KDIR := write3 (A_arr d KDIR) k j i (AreaX3_val cfg d k j i))\<rparr>"

text \<open>The seven loops of \<^verbatim>\<open>MakeGeometry\<close>, in the order of the source.\<close>

definition MakeGeometry :: "config \<Rightarrow> DataBlock \<Rightarrow> DataBlock" where
  "MakeGeometry cfg d0 =
     (let d1 = idefix_for3 0 (np_tot d0 KDIR) 0 (np_tot d0 JDIR) 0 (np_tot d0 IDIR)
                 (Volumes cfg) d0;
          d2 = idefix_for1 0 (np_tot d1 IDIR) (GeometricalCentersX1 cfg) d1;
          d3 = idefix_for1 0 (np_tot d2 JDIR) (GeometricalCentersX2 cfg) d2;
          d4 = idefix_for1 0 (np_tot d3 KDIR) GeometricalCentersX3 d3;
          d5 = idefix_for3 0 (np_tot d4 KDIR) 0 (np_tot d4 JDIR) 0 (np_tot d4 IDIR + IOFFSET cfg)
                 (AreaX1 cfg) d4;
          d6 = idefix_for3 0 (np_tot d5 KDIR) 0 (np_tot d5 JDIR + JOFFSET cfg) 0 (np_tot d5 IDIR)
                 (AreaX2 cfg) d5;
          d7 = idefix_for3 0 (np_tot d6 KDIR + KOFFSET cfg) 0 (np_tot d6 JDIR) 0 (np_tot d6 IDIR)
                 (AreaX3 cfg) d6
      in d7)"

section \<open>What the specification says, in its own words\<close>

text \<open>
  The definitions of this section follow the sentences of the specification, not the
  code; the theorems compare them with the code. The averaged state, the sound speed
  (adiabatic with an energy equation, \<open>sqrt C2Iso\<close> without), the wave-speed estimate
  \<open>max (|v\<^sub>n + c|) (|v\<^sub>n - c|)\<close>, the analytic signal speed \<open>|v\<^sub>n| + c\<close> of a
  state, the blend as the specification writes it, and the number of cells of the
  subdomain along a direction.
\<close>

definition spec_average :: "vec \<Rightarrow> vec \<Rightarrow> vec" where
  "spec_average vL vR = (\<lambda>nv. (vL nv + vR nv) / 2)"

definition spec_soundSpeed :: "config \<Rightarrow> real \<Rightarrow> real \<Rightarrow> vec \<Rightarrow> real option" where
  "spec_soundSpeed cfg gamma C2Iso v =
     (if HAVE_ENERGY cfg
      then (if v (RHO cfg) = 0 \<or> (gamma - 1 + 1) * v (PRS cfg) / v (RHO cfg) < 0 then None
            else Some (sqrt ((gamma - 1 + 1) * v (PRS cfg) / v (RHO cfg))))
      else (if C2Iso < 0 then None else Some (sqrt C2Iso)))"

definition spec_cmax :: "config \<Rightarrow> nat \<Rightarrow> real \<Rightarrow> real \<Rightarrow> vec \<Rightarrow> real option" where
  "spec_cmax cfg Xn gamma C2Iso v =
     map_option (\<lambda>c. max \<bar>v Xn + c\<bar> \<bar>v Xn - c\<bar>) (spec_soundSpeed cfg gamma C2Iso v)"

definition spec_signalSpeed :: "config \<Rightarrow> nat \<Rightarrow> real \<Rightarrow> real \<Rightarrow> vec \<Rightarrow> real option" where
  "spec_signalSpeed cfg Xn gamma C2Iso v =
     map_option (\<lambda>c. \<bar>v Xn\<bar> + c) (spec_soundSpeed cfg gamma C2Iso v)"

definition spec_blend :: "vec \<Rightarrow> vec \<Rightarrow> vec \<Rightarrow> vec \<Rightarrow> real \<Rightarrow> vec" where
  "spec_blend fluxL fluxR uL uR cmax =
     (\<lambda>nv. (1 / 2) * (fluxL nv + fluxR nv) - cmax * (uR nv - uL nv))"

definition spec_cells :: "DataBlock \<Rightarrow> dir \<Rightarrow> int" where
  "spec_cells data d = end_idx data d - beg data d"

text \<open>
  The validity of a coordinate axis as the volume-positivity property states it (the
  cell centres, the spacings and the two face positions are strictly increasing sequences
  over the cells of the axis), and the radius-weighted mean with both differences of
  powers passed through an absolute value, as the edge-case policy would have it.
\<close>

definition spec_increasing :: "int \<Rightarrow> (int \<Rightarrow> real) \<Rightarrow> bool" where
  "spec_increasing n a = (\<forall>i \<in> set [0..n - 2]. a i < a (i + 1))"

definition spec_valid_axis :: "DataBlock \<Rightarrow> dir \<Rightarrow> bool" where
  "spec_valid_axis d a =
     (spec_increasing (np_tot d a) (x_arr d a) \<and> spec_increasing (np_tot d a) (dx d a) \<and>
      spec_increasing (np_tot d a) (xl d a) \<and> spec_increasing (np_tot d a) (xr d a))"

definition spec_rt_abs :: "DataBlock \<Rightarrow> int \<Rightarrow> real option" where
  "spec_rt_abs d i =
     (let r_right = xr d IDIR i; r_left = xl d IDIR i
      in do { q \<leftarrow> fdiv \<bar>r_right ^ 3 - r_left ^ 3\<bar> \<bar>r_right ^ 2 - r_left ^ 2\<bar>;
              fdiv q (3 / 2) })"

text \<open>
  The opposite normal convention: the component along the normal of a state, of a
  conservative vector or of a flux vector changes sign, the others stay.
\<close>

definition reflect :: "nat \<Rightarrow> vec \<Rightarrow> vec" where
  "reflect Xn v = (\<lambda>nv. if nv = Xn then - v nv else v nv)"

section \<open>Concrete inputs\<close>

text \<open>
  An instance of the physics parameters, to run the solver on: the one-dimensional
  ideal gas with state \<open>(\<rho>, v, p)\<close>, conservative vector
  \<open>(\<rho>, \<rho> v, p / (\<gamma> - 1) + \<rho> v\<^sup>2 / 2)\<close> and flux \<open>(\<rho> v, \<rho> v\<^sup>2 + p, (E + p) v)\<close>.
\<close>

definition vec3 :: "real \<Rightarrow> real \<Rightarrow> real \<Rightarrow> vec" where
  "vec3 a b c = (\<lambda>nv. if nv = 0 then a else if nv = 1 then b else if nv = 2 then c else 0)"

definition euler_cfg :: config where
  "euler_cfg = \<lparr>GEOMETRY = CARTESIAN, DIMENSIONS = 1, IOFFSET = 1, JOFFSET = 0, KOFFSET = 0,
                HAVE_ENERGY = True, NVAR = 3, RHO = 0, PRS = 2\<rparr>"

definition euler_PrimToCons :: prim_to_cons where
  "euler_PrimToCons v gamma_m1 =
     vec3 (v 0) (v 0 * v 1) (v 2 / gamma_m1 + (1 / 2) * v 0 * (v 1 * v 1))"

definition euler_Flux :: flux_fun where
  "euler_Flux v u C2Iso Xn = vec3 (u 1) (u 1 * v 1 + v 2) ((u 2 + v 2) * v 1)"

text \<open>
  A data block of one cell per direction whose faces all carry the left state \<open>vL\<close>
  and the right state \<open>vR\<close>.
\<close>

definition face_block :: "vec \<Rightarrow> vec \<Rightarrow> DataBlock" where
  "face_block vL vR =
     \<lparr>np_tot = (\<lambda>d. 1), beg = (\<lambda>d. 0), end_idx = (\<lambda>d. 1),
      x_arr = (\<lambda>d i. 0), dx = (\<lambda>d i. 1), xr = (\<lambda>d i. 0), xl = (\<lambda>d i. 0),
      dV = (\<lambda>k j i. None), A_arr = (\<lambda>d k j i. None), xgc = (\<lambda>d i. None),
      rt = (\<lambda>i. None), sm = (\<lambda>i. None), s_arr = (\<lambda>i. None), dmu = (\<lambda>i. None),
      PrimL = (\<lambda>nv k j i. vL nv), PrimR = (\<lambda>nv k j i. vR nv),
      FluxRiemann = (\<lambda>nv k j i. None), cMax = (\<lambda>k j i. None)\<rparr>"

text \<open>
  Configurations and grids for the geometry: a configuration with every face offset
  switched on up to its number of dimensions, and a data block built from its four
  coordinate arrays, with \<open>n\<close> cells along every direction.
\<close>

definition geom_cfg :: "geometry \<Rightarrow> nat \<Rightarrow> config" where
  "geom_cfg g dims =
     \<lparr>GEOMETRY = g, DIMENSIONS = dims, IOFFSET = 1,
      JOFFSET = (if 2 \<le> dims then 1 else 0), KOFFSET = (if 3 \<le> dims then 1 else 0),
      HAVE_ENERGY = True, NVAR = 5, RHO = 0, PRS = 4\<rparr>"

definition grid_block ::
  "int \<Rightarrow> (dir \<Rightarrow> int \<Rightarrow> real) \<Rightarrow> (dir \<Rightarrow> int \<Rightarrow> real) \<Rightarrow> (dir \<Rightarrow> int \<Rightarrow> real) \<Rightarrow> (dir \<Rightarrow> int \<Rightarrow> real)
     \<Rightarrow> DataBlock" where
  "grid_block n X DX XL XR =
     \<lparr>np_tot = (\<lambda>d. n), beg = (\<lambda>d. 0), end_idx = (\<lambda>d. n),
      x_arr = X, dx = DX, xr = XR, xl = XL,
      dV = (\<lambda>k j i. None), A_arr = (\<lambda>d k j i. None), xgc = (\<lambda>d i. None),
      rt = (\<lambda>i. None), sm = (\<lambda>i. None), s_arr = (\<lambda>i. None), dmu = (\<lambda>i. None),
      PrimL = (\<lambda>nv k j i. 0), PrimR = (\<lambda>nv k j i. 0),
      FluxRiemann = (\<lambda>nv k j i. None), cMax = (\<lambda>k j i. None)\<rparr>"

text \<open>
  One spherical cell: radius from 1 to 2, polar angle from 0 to \<open>\<pi> / 2\<close>, azimuth
  from 0 to 1.
\<close>

definition shell_grid :: DataBlock where
  "shell_grid =
     grid_block 1
       (\<lambda>d i. case d of IDIR \<Rightarrow> 3 / 2 | JDIR \<Rightarrow> pi / 4 | KDIR \<Rightarrow> 1 / 2)
       (\<lambda>d i. case d of IDIR \<Rightarrow> 1 | JDIR \<Rightarrow> pi / 2 | KDIR \<Rightarrow> 1)
       (\<lambda>d i. case d of IDIR \<Rightarrow> 1 | JDIR \<Rightarrow> 0 | KDIR \<Rightarrow> 0)
       (\<lambda>d i. case d of IDIR \<Rightarrow> 2 | JDIR \<Rightarrow> pi / 2 | KDIR \<Rightarrow> 1)"

text \<open>
  Two cells along every axis, with faces at \<open>-1\<close>, \<open>1\<close> and \<open>4\<close>: every sequence is
  strictly increasing, and the first cell is centred on the origin.
\<close>

definition axis_grid :: DataBlock where
  "axis_grid =
     grid_block 2
       (\<lambda>d i. if i \<le> 0 then 0 else 5 / 2)
       (\<lambda>d i. if i \<le> 0 then 2 else 3)
       (\<lambda>d i. if i \<le> 0 then - 1 else 1)
       (\<lambda>d i. if i \<le> 0 then 1 else 4)"

text \<open>The same cell mirrored to negative radii, from \<open>-2\<close> to \<open>-1\<close>.\<close>

definition inner_grid :: DataBlock where
  "inner_grid =
     grid_block 1
       (\<lambda>d i. case d of IDIR \<Rightarrow> - (3 / 2) | JDIR \<Rightarrow> pi / 4 | KDIR \<Rightarrow> 1 / 2)
       (\<lambda>d i. case d of IDIR \<Rightarrow> 1 | JDIR \<Rightarrow> pi / 2 | KDIR \<Rightarrow> 1)
       (\<lambda>d i. case d of IDIR \<Rightarrow> - 2 | JDIR \<Rightarrow> 0 | KDIR \<Rightarrow> 0)
       (\<lambda>d i. case d of IDIR \<Rightarrow> - 1 | JDIR \<Rightarrow> pi / 2 | KDIR \<Rightarrow> 1)"

section \<open>Properties of the solver\<close>

lemma set_idefix_range3:
  "set (idefix_range3 kb ke jb je ib ie) =
     {(k, j, i). kb \<le> k \<and> k < ke \<and> jb \<le> j \<and> j < je \<and> ib \<le> i \<and> i < ie}"
  by (auto simp: idefix_range3_def)

lemma distinct_idefix_range3: "distinct (idefix_range3 kb ke jb je ib ie)"
  by (simp add: idefix_range3_def distinct_product)

lemma length_idefix_range3:
  "length (idefix_range3 kb ke jb je ib ie) = nat (ke - kb) * (nat (je - jb) * nat (ie - ib))"
  by (simp add: idefix_range3_def)

lemma store_flux_eq:
  "store_flux n k j i flux Flux =
     (\<lambda>nv. if nv < n then write3 (Flux nv) k j i (flux nv) else Flux nv)"
proof (induction n)
  case 0
  show ?case by (simp add: store_flux_def)
next
  case (Suc n)
  have "store_flux (Suc n) k j i flux Flux =
          (store_flux n k j i flux Flux)
            (n := write3 (store_flux n k j i flux Flux n) k j i (flux n))"
    by (simp add: store_flux_def)
  then show ?case by (auto simp: Suc.IH fun_eq_iff)
qed

lemma TVDLF_fold:
  "fold (\<lambda>(k, j, i). TVDLF_Kernel cfg P F Xn gamma C2Iso k j i) idxs data =
     data\<lparr>FluxRiemann :=
            (\<lambda>nv k j i. if nv < NVAR cfg \<and> (k, j, i) \<in> set idxs
               then map_option (\<lambda>r. fst r nv)
                      (TvdlfHD_face cfg P F Xn gamma C2Iso (\<lambda>nv. PrimL data nv k j i) (\<lambda>nv. PrimR data nv k j i))
               else FluxRiemann data nv k j i),
          cMax :=
            (\<lambda>k j i. if (k, j, i) \<in> set idxs
               then map_option snd
                      (TvdlfHD_face cfg P F Xn gamma C2Iso (\<lambda>nv. PrimL data nv k j i) (\<lambda>nv. PrimR data nv k j i))
               else cMax data k j i)\<rparr>"
proof (induction idxs arbitrary: data)
  case Nil
  show ?case by simp
next
  case (Cons a idxs)
  obtain k j i where a: "a = (k, j, i)" by (cases a) auto
  show ?case
    unfolding a
    apply (simp add: Cons.IH)
    apply (simp add: TVDLF_Kernel_def store_flux_eq Let_def write3_def fun_eq_iff)
    done
qed

text \<open>
  The bodies of a parallel loop may run in any order. The result of the kernel loop
  depends on the set of the visited faces only, so the order chosen by the model is
  immaterial.
\<close>

lemma TVDLF_any_order:
  assumes "set idxs = set idxs'"
  shows "fold (\<lambda>(k, j, i). TVDLF_Kernel cfg P F Xn gamma C2Iso k j i) idxs data =
         fold (\<lambda>(k, j, i). TVDLF_Kernel cfg P F Xn gamma C2Iso k j i) idxs' data"
  by (simp add: TVDLF_fold assms)

lemma TvdlfHD_fold:
  "TvdlfHD cfg P F DIR Xn gamma C2Iso data =
     fold (\<lambda>(k, j, i). TVDLF_Kernel cfg P F Xn gamma C2Iso k j i) (TvdlfHD_range DIR data) data"
  by (simp add: TvdlfHD_def TvdlfHD_range_def idefix_for3_def Let_def)

lemma TvdlfHD_cMax:
  "cMax (TvdlfHD cfg P F DIR Xn gamma C2Iso data) k j i =
     (if (k, j, i) \<in> set (TvdlfHD_range DIR data)
      then map_option snd
             (TvdlfHD_face cfg P F Xn gamma C2Iso (\<lambda>nv. PrimL data nv k j i) (\<lambda>nv. PrimR data nv k j i))
      else cMax data k j i)"
  by (simp add: TvdlfHD_fold TVDLF_fold)

lemma TvdlfHD_FluxRiemann:
  "FluxRiemann (TvdlfHD cfg P F DIR Xn gamma C2Iso data) nv k j i =
     (if nv < NVAR cfg \<and> (k, j, i) \<in> set (TvdlfHD_range DIR data)
      then map_option (\<lambda>r. fst r nv)
             (TvdlfHD_face cfg P F Xn gamma C2Iso (\<lambda>nv. PrimL data nv k j i) (\<lambda>nv. PrimR data nv k j i))
      else FluxRiemann data nv k j i)"
  by (simp add: TvdlfHD_fold TVDLF_fold)

lemma set_TvdlfHD_range:
  "set (TvdlfHD_range DIR data) =
     {(k, j, i).
        beg data KDIR \<le> k \<and> k < end_idx data KDIR + (if DIR = KDIR then 1 else 0) \<and>
        beg data JDIR \<le> j \<and> j < end_idx data JDIR + (if DIR = JDIR then 1 else 0) \<and>
        beg data IDIR \<le> i \<and> i < end_idx data IDIR + (if DIR = IDIR then 1 else 0)}"
  by (simp add: TvdlfHD_range_def Let_def set_idefix_range3)

lemma average_code:
  "(\<lambda>nv. (1 / 2) * (vL nv + vR nv)) = spec_average vL vR"
  by (simp add: spec_average_def fun_eq_iff)

lemma soundSpeed_code:
  "(if HAVE_ENERGY cfg
    then do { q \<leftarrow> fdiv (v (PRS cfg)) (v (RHO cfg)); SQRT ((gamma - 1 + 1) * q) }
    else SQRT C2Iso) = spec_soundSpeed cfg gamma C2Iso v"
  by (simp add: fdiv_def SQRT_def spec_soundSpeed_def)

lemma TvdlfHD_face_eq:
  "TvdlfHD_face cfg P F Xn gamma C2Iso vL vR =
     map_option
       (\<lambda>cmax. (\<lambda>nv. (1 / 2) * (F vL (P vL (gamma - 1)) C2Iso Xn nv + F vR (P vR (gamma - 1)) C2Iso Xn nv
                  - cmax * (P vR (gamma - 1) nv - P vL (gamma - 1) nv)), cmax))
       (spec_cmax cfg Xn gamma C2Iso (spec_average vL vR))"
  unfolding TvdlfHD_face_def Let_def average_code soundSpeed_code
  by (cases "spec_soundSpeed cfg gamma C2Iso (spec_average vL vR)")
     (simp_all add: spec_cmax_def FMAX_def FABS_def)

lemma TvdlfHD_face_cmax:
  "map_option snd (TvdlfHD_face cfg P F Xn gamma C2Iso vL vR) =
     spec_cmax cfg Xn gamma C2Iso (spec_average vL vR)"
  by (simp add: TvdlfHD_face_eq option.map_comp comp_def option.map_ident)

lemma TvdlfHD_face_flux:
  "map_option (\<lambda>r. fst r nv) (TvdlfHD_face cfg P F Xn gamma C2Iso vL vR) =
     map_option
       (\<lambda>cmax. (1 / 2) * (F vL (P vL (gamma - 1)) C2Iso Xn nv + F vR (P vR (gamma - 1)) C2Iso Xn nv
                  - cmax * (P vR (gamma - 1) nv - P vL (gamma - 1) nv)))
       (spec_cmax cfg Xn gamma C2Iso (spec_average vL vR))"
  by (simp add: TvdlfHD_face_eq option.map_comp comp_def)


lemma max_abs_sum: "0 \<le> c \<Longrightarrow> max \<bar>a + c\<bar> \<bar>a - c\<bar> = \<bar>a\<bar> + (c::real)"
  by (simp add: max_def abs_if)

lemma spec_soundSpeed_nonneg: "spec_soundSpeed cfg gamma C2Iso v = Some c \<Longrightarrow> 0 \<le> c"
  by (auto simp: spec_soundSpeed_def split: if_splits)

lemma spec_cmax_signalSpeed:
  "spec_cmax cfg Xn gamma C2Iso v = spec_signalSpeed cfg Xn gamma C2Iso v"
  by (cases "spec_soundSpeed cfg gamma C2Iso v")
     (simp_all add: spec_cmax_def spec_signalSpeed_def max_abs_sum spec_soundSpeed_nonneg)

lemma spec_average_same: "spec_average v v = v"
  by (simp add: spec_average_def fun_eq_iff)

lemma face_block_range:
  "set (TvdlfHD_range IDIR (face_block vL vR)) = {(0, 0, 0), (0, 0, 1)}"
  by (auto simp: set_TvdlfHD_range face_block_def)

lemma face_block_PrimL: "(\<lambda>nv. PrimL (face_block vL vR) nv k j i) = vL"
  and face_block_PrimR: "(\<lambda>nv. PrimR (face_block vL vR) nv k j i) = vR"
  by (simp_all add: face_block_def)

text \<open>
  Claim C2. At every face that the sweep visits, the wave speed written to \<^verbatim>\<open>cMax\<close>
  is the estimate of the specification evaluated on the component-wise average of the
  left and right states: with an energy equation the sound speed is
  \<open>sqrt ((gamma - 1 + 1) * pressure / density)\<close> of the averaged state, without one it is
  \<open>sqrt C2Iso\<close> whatever the state, and the estimate is
  \<open>max (|v\<^sub>n + c|) (|v\<^sub>n - c|)\<close>. Where the sound speed is not a finite number
  (zero averaged density, negative operand of the root) both sides are \<open>None\<close>.
\<close>

theorem cmax_from_averaged_state:
  assumes "(k, j, i) \<in> set (TvdlfHD_range DIR data)"
  shows "cMax (TvdlfHD cfg P F DIR Xn gamma C2Iso data) k j i =
           spec_cmax cfg Xn gamma C2Iso
             (spec_average (\<lambda>nv. PrimL data nv k j i) (\<lambda>nv. PrimR data nv k j i))"
  using assms by (simp add: TvdlfHD_cMax TvdlfHD_face_cmax)

theorem cmax_from_averaged_state_witness:
  "(0, 0, 0) \<in> set (TvdlfHD_range IDIR (face_block (vec3 2 0 1) (vec3 6 0 3))) \<and>
   cMax (TvdlfHD euler_cfg euler_PrimToCons euler_Flux IDIR 1 2 0
           (face_block (vec3 2 0 1) (vec3 6 0 3))) 0 0 0 = Some 1"
proof -
  have h: "(0, 0, 0) \<in> set (TvdlfHD_range IDIR (face_block (vec3 2 0 1) (vec3 6 0 3)))"
    by (simp add: face_block_range)
  show ?thesis
    using h cmax_from_averaged_state [OF h, of euler_cfg euler_PrimToCons euler_Flux 1 2 0]
    by (simp add: face_block_PrimL face_block_PrimR spec_cmax_def spec_soundSpeed_def
        spec_average_def euler_cfg_def vec3_def)
qed

text \<open>
  Claim C1, as stated, fails: the code multiplies the whole bracket
  \<open>fluxL + fluxR - cmax * (uR - uL)\<close> by one half, so the dissipation term carries the
  factor one half as well. On the ideal gas with \<open>\<gamma> = 2\<close>, left state \<open>(2, 0, 1)\<close> and
  right state \<open>(6, 0, 3)\<close> the wave speed is 1, the code stores the mass flux \<open>-2\<close>, and
  the formula of the claim gives \<open>-4\<close>.
\<close>

theorem blend_counterexample:
  "cMax (TvdlfHD euler_cfg euler_PrimToCons euler_Flux IDIR 1 2 0
           (face_block (vec3 2 0 1) (vec3 6 0 3))) 0 0 0 = Some 1 \<and>
   FluxRiemann (TvdlfHD euler_cfg euler_PrimToCons euler_Flux IDIR 1 2 0
           (face_block (vec3 2 0 1) (vec3 6 0 3))) 0 0 0 0 = Some (- 2) \<and>
   spec_blend (euler_Flux (vec3 2 0 1) (euler_PrimToCons (vec3 2 0 1) (2 - 1)) 0 1)
              (euler_Flux (vec3 6 0 3) (euler_PrimToCons (vec3 6 0 3) (2 - 1)) 0 1)
              (euler_PrimToCons (vec3 2 0 1) (2 - 1))
              (euler_PrimToCons (vec3 6 0 3) (2 - 1)) 1 0 = - 4"
  by (simp add: TvdlfHD_cMax TvdlfHD_FluxRiemann face_block_range face_block_PrimL face_block_PrimR
      TvdlfHD_face_eq spec_cmax_def spec_soundSpeed_def spec_average_def spec_blend_def
      euler_cfg_def euler_PrimToCons_def euler_Flux_def vec3_def)

text \<open>
  Claim C1, amended. At every face that the sweep visits and for every component below
  \<^verbatim>\<open>NVAR\<close>, the stored flux is
  \<open>0.5 * (fluxLeft + fluxRight) - 0.5 * cmax * (conservativeRight - conservativeLeft)\<close>,
  where \<open>fluxLeft\<close>, \<open>fluxRight\<close> are the physical fluxes of the two states,
  \<open>conservativeLeft\<close>, \<open>conservativeRight\<close> their conservative transforms and \<open>cmax\<close>
  the wave-speed estimate of step 4, taken on the averaged state.
\<close>

theorem blend_half_dissipation:
  assumes "(k, j, i) \<in> set (TvdlfHD_range DIR data)" and "nv < NVAR cfg"
  shows "FluxRiemann (TvdlfHD cfg P F DIR Xn gamma C2Iso data) nv k j i =
           map_option
             (\<lambda>cmax. (1 / 2) * (F (\<lambda>nv. PrimL data nv k j i) (P (\<lambda>nv. PrimL data nv k j i) (gamma - 1)) C2Iso Xn nv
                               + F (\<lambda>nv. PrimR data nv k j i) (P (\<lambda>nv. PrimR data nv k j i) (gamma - 1)) C2Iso Xn nv)
                    - (1 / 2) * cmax * (P (\<lambda>nv. PrimR data nv k j i) (gamma - 1) nv
                                        - P (\<lambda>nv. PrimL data nv k j i) (gamma - 1) nv))
             (spec_cmax cfg Xn gamma C2Iso
                (spec_average (\<lambda>nv. PrimL data nv k j i) (\<lambda>nv. PrimR data nv k j i)))"
  using assms
  by (simp add: TvdlfHD_FluxRiemann TvdlfHD_face_flux algebra_simps)

theorem blend_half_dissipation_witness:
  "FluxRiemann (TvdlfHD euler_cfg euler_PrimToCons euler_Flux IDIR 1 2 0
           (face_block (vec3 2 0 1) (vec3 6 0 3))) 2 0 0 0 = Some (- 1)"
proof -
  have h: "(0, 0, 0) \<in> set (TvdlfHD_range IDIR (face_block (vec3 2 0 1) (vec3 6 0 3)))"
    by (simp add: face_block_range)
  have n: "(2::nat) < NVAR euler_cfg" by (simp add: euler_cfg_def)
  show ?thesis
    using blend_half_dissipation [OF h n, of euler_PrimToCons euler_Flux 1 2 0]
    by (simp add: face_block_PrimL face_block_PrimR euler_PrimToCons_def euler_Flux_def vec3_def
        spec_cmax_def spec_soundSpeed_def spec_average_def euler_cfg_def)
qed

text \<open>
  Claim C6, as stated, fails for a state without a finite sound speed: with identical
  left and right states \<open>(\<rho>, v, p) = (1, 0, -1)\<close> and \<open>\<gamma> = 2\<close> the operand of the
  square root is negative, and the stored momentum flux is not a finite number, while
  the physical momentum flux of the state is \<open>-1\<close>.
\<close>

theorem identical_states_counterexample:
  "FluxRiemann (TvdlfHD euler_cfg euler_PrimToCons euler_Flux IDIR 1 2 0
           (face_block (vec3 1 0 (- 1)) (vec3 1 0 (- 1)))) 1 0 0 0 = None \<and>
   euler_Flux (vec3 1 0 (- 1)) (euler_PrimToCons (vec3 1 0 (- 1)) (2 - 1)) 0 1 1 = - 1"
  by (simp add: TvdlfHD_FluxRiemann face_block_range face_block_PrimL face_block_PrimR
      TvdlfHD_face_eq spec_cmax_def spec_soundSpeed_def spec_average_def
      euler_cfg_def euler_PrimToCons_def euler_Flux_def vec3_def)

text \<open>
  Claim C6, amended. For every sweep direction, every face that the sweep visits and
  every state \<open>W\<close> whose analytic signal speed \<open>|v\<^sub>n| + c\<close> is a finite number
  (nonzero density and non-negative \<open>\<gamma> p / \<rho>\<close> with an energy equation, non-negative
  \<open>C2Iso\<close> without): if \<open>W\<close> is both the left and the right state of the face, the stored
  wave speed is that signal speed and every stored flux component is exactly the
  physical flux of \<open>W\<close>.
\<close>

theorem identical_states_physical_flux:
  assumes "(k, j, i) \<in> set (TvdlfHD_range DIR data)"
    and "(\<lambda>nv. PrimL data nv k j i) = W" and "(\<lambda>nv. PrimR data nv k j i) = W"
    and "spec_signalSpeed cfg Xn gamma C2Iso W = Some c"
  shows "cMax (TvdlfHD cfg P F DIR Xn gamma C2Iso data) k j i = Some c \<and>
         (\<forall>nv < NVAR cfg.
            FluxRiemann (TvdlfHD cfg P F DIR Xn gamma C2Iso data) nv k j i =
              Some (F W (P W (gamma - 1)) C2Iso Xn nv))"
  using assms
  by (simp add: TvdlfHD_cMax TvdlfHD_FluxRiemann TvdlfHD_face_flux TvdlfHD_face_cmax
      spec_average_same spec_cmax_signalSpeed)

theorem identical_states_physical_flux_witness:
  "cMax (TvdlfHD euler_cfg euler_PrimToCons euler_Flux IDIR 1 2 0
           (face_block (vec3 2 3 1) (vec3 2 3 1))) 0 0 0 = Some 4 \<and>
   FluxRiemann (TvdlfHD euler_cfg euler_PrimToCons euler_Flux IDIR 1 2 0
           (face_block (vec3 2 3 1) (vec3 2 3 1))) 1 0 0 0 = Some 19"
proof -
  have h: "(0, 0, 0) \<in> set (TvdlfHD_range IDIR (face_block (vec3 2 3 1) (vec3 2 3 1)))"
    by (simp add: face_block_range)
  have c: "spec_signalSpeed euler_cfg 1 2 0 (vec3 2 3 1) = Some 4"
    by (simp add: spec_signalSpeed_def spec_soundSpeed_def euler_cfg_def vec3_def)
  have n: "(1::nat) < NVAR euler_cfg" by (simp add: euler_cfg_def)
  show ?thesis
    using n identical_states_physical_flux [OF h face_block_PrimL face_block_PrimR c,
        of euler_PrimToCons euler_Flux]
    by (simp add: euler_PrimToCons_def euler_Flux_def vec3_def)
qed




lemma reflect_reflect: "reflect Xn (reflect Xn v) = v"
  by (simp add: reflect_def fun_eq_iff)

lemma spec_average_reflect:
  "spec_average (reflect Xn vR) (reflect Xn vL) = reflect Xn (spec_average vL vR)"
  by (simp add: spec_average_def reflect_def fun_eq_iff add_divide_distrib)

lemma max_abs_flip: "max \<bar>- a + c\<bar> \<bar>- a - c\<bar> = max \<bar>a + c\<bar> \<bar>a - (c::real)\<bar>"
proof -
  have "\<bar>- a + c\<bar> = \<bar>a - c\<bar>" and "\<bar>- a - c\<bar> = \<bar>a + c\<bar>" by simp_all
  then show ?thesis by (simp add: max.commute)
qed

lemma spec_cmax_reflect:
  assumes "HAVE_ENERGY cfg \<Longrightarrow> Xn \<noteq> RHO cfg \<and> Xn \<noteq> PRS cfg"
  shows "spec_cmax cfg Xn gamma C2Iso (reflect Xn v) = spec_cmax cfg Xn gamma C2Iso v"
proof -
  have s: "spec_soundSpeed cfg gamma C2Iso (reflect Xn v) = spec_soundSpeed cfg gamma C2Iso v"
  proof (cases "HAVE_ENERGY cfg")
    case True
    with assms have "Xn \<noteq> RHO cfg" and "Xn \<noteq> PRS cfg" by simp_all
    then show ?thesis by (simp add: spec_soundSpeed_def reflect_def)
  next
    case False
    then show ?thesis by (simp add: spec_soundSpeed_def)
  qed
  have x: "reflect Xn v Xn = - v Xn" by (simp add: reflect_def)
  show ?thesis unfolding spec_cmax_def s x by (simp only: max_abs_flip)
qed

text \<open>
  Claim C7. The face seen under the opposite normal convention has the states swapped
  and their normal velocity negated: its left state is the reflected right state and its
  right state the reflected left state. Provided the conservative transform commutes
  with the reflection (normal momentum odd, the rest even in the normal velocity) and the
  flux function anticommutes with it (normal momentum flux even, the rest odd), and
  \<^verbatim>\<open>Xn\<close> is not the position of the density or the pressure that the sound speed
  reads, the flux stored for a face is minus the flux stored for the opposite face,
  read back in the original convention (its normal component negated), and the two
  stored wave speeds are equal.
\<close>

theorem flux_antisymmetry:
  assumes "(k, j, i) \<in> set (TvdlfHD_range DIR data)"
    and "(k, j, i) \<in> set (TvdlfHD_range DIR data')"
    and "(\<lambda>nv. PrimL data' nv k j i) = reflect Xn (\<lambda>nv. PrimR data nv k j i)"
    and "(\<lambda>nv. PrimR data' nv k j i) = reflect Xn (\<lambda>nv. PrimL data nv k j i)"
    and "HAVE_ENERGY cfg \<Longrightarrow> Xn \<noteq> RHO cfg \<and> Xn \<noteq> PRS cfg"
    and "\<And>v. P (reflect Xn v) (gamma - 1) = reflect Xn (P v (gamma - 1))"
    and "\<And>v u. F (reflect Xn v) (reflect Xn u) C2Iso Xn = (\<lambda>nv. - reflect Xn (F v u C2Iso Xn) nv)"
    and "nv < NVAR cfg"
  shows "FluxRiemann (TvdlfHD cfg P F DIR Xn gamma C2Iso data) nv k j i =
           map_option (\<lambda>f. - (if nv = Xn then - f else f))
             (FluxRiemann (TvdlfHD cfg P F DIR Xn gamma C2Iso data') nv k j i) \<and>
         cMax (TvdlfHD cfg P F DIR Xn gamma C2Iso data) k j i =
           cMax (TvdlfHD cfg P F DIR Xn gamma C2Iso data') k j i"
proof -
  define vL where "vL = (\<lambda>nv. PrimL data nv k j i)"
  define vR where "vR = (\<lambda>nv. PrimR data nv k j i)"
  have c: "spec_cmax cfg Xn gamma C2Iso (spec_average (reflect Xn vR) (reflect Xn vL)) =
           spec_cmax cfg Xn gamma C2Iso (spec_average vL vR)"
    by (simp add: spec_average_reflect spec_cmax_reflect [OF assms(5)])
  have f: "F (reflect Xn v) (P (reflect Xn v) (gamma - 1)) C2Iso Xn nv =
           - reflect Xn (F v (P v (gamma - 1)) C2Iso Xn) nv" for v
    by (simp add: assms(6,7))
  have p: "P (reflect Xn v) (gamma - 1) nv = reflect Xn (P v (gamma - 1)) nv" for v
    by (simp add: assms(6))
  have d: "FluxRiemann (TvdlfHD cfg P F DIR Xn gamma C2Iso data) nv k j i =
          map_option
            (\<lambda>cmax. (1 / 2) * (F vL (P vL (gamma - 1)) C2Iso Xn nv + F vR (P vR (gamma - 1)) C2Iso Xn nv
                       - cmax * (P vR (gamma - 1) nv - P vL (gamma - 1) nv)))
            (spec_cmax cfg Xn gamma C2Iso (spec_average vL vR))"
    using assms(1,8) by (simp add: TvdlfHD_FluxRiemann TvdlfHD_face_flux vL_def vR_def)
  have d': "FluxRiemann (TvdlfHD cfg P F DIR Xn gamma C2Iso data') nv k j i =
          map_option
            (\<lambda>cmax. (1 / 2) * (- reflect Xn (F vR (P vR (gamma - 1)) C2Iso Xn) nv
                               + - reflect Xn (F vL (P vL (gamma - 1)) C2Iso Xn) nv
                       - cmax * (reflect Xn (P vL (gamma - 1)) nv - reflect Xn (P vR (gamma - 1)) nv)))
            (spec_cmax cfg Xn gamma C2Iso (spec_average vL vR))"
    using assms(2,8)
    by (simp add: TvdlfHD_FluxRiemann TvdlfHD_face_flux assms(3,4) c f p
        vL_def[symmetric] vR_def[symmetric])
  have "FluxRiemann (TvdlfHD cfg P F DIR Xn gamma C2Iso data) nv k j i =
          map_option (\<lambda>f. - (if nv = Xn then - f else f))
            (FluxRiemann (TvdlfHD cfg P F DIR Xn gamma C2Iso data') nv k j i)"
    unfolding d d'
    by (cases "spec_cmax cfg Xn gamma C2Iso (spec_average vL vR)")
       (simp_all add: reflect_def algebra_simps)
  moreover have "cMax (TvdlfHD cfg P F DIR Xn gamma C2Iso data) k j i =
           cMax (TvdlfHD cfg P F DIR Xn gamma C2Iso data') k j i"
    using assms(1,2)
    by (simp add: TvdlfHD_cMax TvdlfHD_face_cmax assms(3,4) c vL_def[symmetric] vR_def[symmetric])
  ultimately show ?thesis by simp
qed

lemma euler_PrimToCons_reflect:
  "euler_PrimToCons (reflect 1 v) g = reflect 1 (euler_PrimToCons v g)"
  by (simp add: euler_PrimToCons_def reflect_def vec3_def fun_eq_iff)

lemma euler_Flux_reflect:
  "euler_Flux (reflect 1 v) (reflect 1 u) c 1 = (\<lambda>nv. - reflect 1 (euler_Flux v u c 1) nv)"
  by (simp add: euler_Flux_def reflect_def vec3_def fun_eq_iff)

theorem flux_antisymmetry_witness:
  "FluxRiemann (TvdlfHD euler_cfg euler_PrimToCons euler_Flux IDIR 1 2 0
           (face_block (vec3 6 (- 3) 3) (vec3 2 (- 1) 1))) 0 0 0 0 = Some (- 4) \<and>
   FluxRiemann (TvdlfHD euler_cfg euler_PrimToCons euler_Flux IDIR 1 2 0
           (face_block (vec3 2 1 1) (vec3 6 3 3))) 0 0 0 0 = Some 4"
proof -
  have h: "(0, 0, 0) \<in> set (TvdlfHD_range IDIR (face_block (vec3 2 1 1) (vec3 6 3 3)))"
    and h': "(0, 0, 0) \<in> set (TvdlfHD_range IDIR (face_block (vec3 6 (- 3) 3) (vec3 2 (- 1) 1)))"
    by (simp_all add: face_block_range)
  have l: "(\<lambda>nv. PrimL (face_block (vec3 6 (- 3) 3) (vec3 2 (- 1) 1)) nv 0 0 0) =
             reflect 1 (\<lambda>nv. PrimR (face_block (vec3 2 1 1) (vec3 6 3 3)) nv 0 0 0)"
    and r: "(\<lambda>nv. PrimR (face_block (vec3 6 (- 3) 3) (vec3 2 (- 1) 1)) nv 0 0 0) =
             reflect 1 (\<lambda>nv. PrimL (face_block (vec3 2 1 1) (vec3 6 3 3)) nv 0 0 0)"
    by (simp_all add: face_block_PrimL face_block_PrimR reflect_def vec3_def fun_eq_iff)
  have x: "HAVE_ENERGY euler_cfg \<Longrightarrow> 1 \<noteq> RHO euler_cfg \<and> 1 \<noteq> PRS euler_cfg"
    "0 < NVAR euler_cfg"
    by (simp_all add: euler_cfg_def)
  have m: "FluxRiemann (TvdlfHD euler_cfg euler_PrimToCons euler_Flux IDIR 1 2 0
           (face_block (vec3 6 (- 3) 3) (vec3 2 (- 1) 1))) 0 0 0 0 = Some (- 4)"
    by (simp add: TvdlfHD_FluxRiemann face_block_range face_block_PrimL face_block_PrimR
        TvdlfHD_face_flux spec_cmax_def spec_soundSpeed_def spec_average_def
        euler_cfg_def euler_PrimToCons_def euler_Flux_def vec3_def)
  show ?thesis
    using flux_antisymmetry [where k = 0 and j = 0 and i = 0 and DIR = IDIR and Xn = 1
        and data = "face_block (vec3 2 1 1) (vec3 6 3 3)"
        and data' = "face_block (vec3 6 (- 3) 3) (vec3 2 (- 1) 1)"
        and cfg = euler_cfg and P = euler_PrimToCons and F = euler_Flux
        and gamma = 2 and ?C2Iso = 0 and nv = 0,
        OF h h' l r x(1) euler_PrimToCons_reflect euler_Flux_reflect x(2)] m
    by simp
qed

text \<open>
  Claim C8. For every sweep direction the faces visited are exactly the index triples
  that start at \<^verbatim>\<open>beg\<close> and run over the cell count plus one along the sweep direction
  and over the cell count along the two other directions; each is visited once, so their
  number is the product of the three extents. The sweep is the kernel run over these
  faces; it stores at each of them the wave speed and the \<^verbatim>\<open>NVAR\<close> flux components
  of that face, and changes nothing anywhere else.
\<close>

theorem sweep_visits_faces:
  "set (TvdlfHD_range DIR data) =
     {(k, j, i).
        beg data KDIR \<le> k \<and> k < beg data KDIR + (spec_cells data KDIR + (if DIR = KDIR then 1 else 0)) \<and>
        beg data JDIR \<le> j \<and> j < beg data JDIR + (spec_cells data JDIR + (if DIR = JDIR then 1 else 0)) \<and>
        beg data IDIR \<le> i \<and> i < beg data IDIR + (spec_cells data IDIR + (if DIR = IDIR then 1 else 0))} \<and>
   distinct (TvdlfHD_range DIR data) \<and>
   length (TvdlfHD_range DIR data) =
     nat (spec_cells data KDIR + (if DIR = KDIR then 1 else 0)) *
       (nat (spec_cells data JDIR + (if DIR = JDIR then 1 else 0)) *
        nat (spec_cells data IDIR + (if DIR = IDIR then 1 else 0))) \<and>
   TvdlfHD cfg P F DIR Xn gamma C2Iso data =
     fold (\<lambda>(k, j, i). TVDLF_Kernel cfg P F Xn gamma C2Iso k j i) (TvdlfHD_range DIR data) data \<and>
   (\<forall>k j i. cMax (TvdlfHD cfg P F DIR Xn gamma C2Iso data) k j i =
      (if (k, j, i) \<in> set (TvdlfHD_range DIR data)
       then map_option snd
              (TvdlfHD_face cfg P F Xn gamma C2Iso (\<lambda>nv. PrimL data nv k j i) (\<lambda>nv. PrimR data nv k j i))
       else cMax data k j i)) \<and>
   (\<forall>nv k j i. FluxRiemann (TvdlfHD cfg P F DIR Xn gamma C2Iso data) nv k j i =
      (if nv < NVAR cfg \<and> (k, j, i) \<in> set (TvdlfHD_range DIR data)
       then map_option (\<lambda>r. fst r nv)
              (TvdlfHD_face cfg P F Xn gamma C2Iso (\<lambda>nv. PrimL data nv k j i) (\<lambda>nv. PrimR data nv k j i))
       else FluxRiemann data nv k j i))"
proof -
  have 1: "set (TvdlfHD_range DIR data) =
     {(k, j, i).
        beg data KDIR \<le> k \<and> k < beg data KDIR + (spec_cells data KDIR + (if DIR = KDIR then 1 else 0)) \<and>
        beg data JDIR \<le> j \<and> j < beg data JDIR + (spec_cells data JDIR + (if DIR = JDIR then 1 else 0)) \<and>
        beg data IDIR \<le> i \<and> i < beg data IDIR + (spec_cells data IDIR + (if DIR = IDIR then 1 else 0))}"
    by (simp add: set_TvdlfHD_range spec_cells_def)
  have 2: "distinct (TvdlfHD_range DIR data)"
    by (simp add: TvdlfHD_range_def Let_def distinct_idefix_range3)
  have 3: "length (TvdlfHD_range DIR data) =
     nat (spec_cells data KDIR + (if DIR = KDIR then 1 else 0)) *
       (nat (spec_cells data JDIR + (if DIR = JDIR then 1 else 0)) *
        nat (spec_cells data IDIR + (if DIR = IDIR then 1 else 0)))"
    by (simp add: TvdlfHD_range_def Let_def length_idefix_range3 spec_cells_def algebra_simps)
  show ?thesis
    by (intro conjI allI 1 2 3 TvdlfHD_fold TvdlfHD_cMax TvdlfHD_FluxRiemann)
qed


theorem sweep_visits_faces_witness:
  "set (TvdlfHD_range IDIR (face_block (vec3 2 0 1) (vec3 6 0 3))) = {(0, 0, 0), (0, 0, 1)} \<and>
   length (TvdlfHD_range IDIR (face_block (vec3 2 0 1) (vec3 6 0 3))) = 2 \<and>
   cMax (TvdlfHD euler_cfg euler_PrimToCons euler_Flux IDIR 1 2 0
           (face_block (vec3 2 0 1) (vec3 6 0 3))) 0 0 1 = Some 1 \<and>
   cMax (TvdlfHD euler_cfg euler_PrimToCons euler_Flux IDIR 1 2 0
           (face_block (vec3 2 0 1) (vec3 6 0 3))) 0 0 2 = None"
proof -
  have b: "beg (face_block (vec3 2 0 1) (vec3 6 0 3)) = (\<lambda>d. 0)"
    and c: "spec_cells (face_block (vec3 2 0 1) (vec3 6 0 3)) = (\<lambda>d. 1)"
    and m: "cMax (face_block (vec3 2 0 1) (vec3 6 0 3)) = (\<lambda>k j i. None)"
    by (simp_all add: face_block_def spec_cells_def fun_eq_iff)
  have f: "map_option snd (TvdlfHD_face euler_cfg euler_PrimToCons euler_Flux 1 2 0
             (vec3 2 0 1) (vec3 6 0 3)) = Some 1"
    by (simp add: TvdlfHD_face_cmax spec_cmax_def spec_soundSpeed_def spec_average_def
        euler_cfg_def vec3_def)
  have r: "set (TvdlfHD_range IDIR (face_block (vec3 2 0 1) (vec3 6 0 3))) = {(0, 0, 0), (0, 0, 1)}"
    by (rule face_block_range)
  note t = sweep_visits_faces [of IDIR "face_block (vec3 2 0 1) (vec3 6 0 3)"
        euler_cfg euler_PrimToCons euler_Flux 1 2 0]
  from t have l: "length (TvdlfHD_range IDIR (face_block (vec3 2 0 1) (vec3 6 0 3))) = 2"
    by (simp add: c)
  from t have w: "cMax (TvdlfHD euler_cfg euler_PrimToCons euler_Flux IDIR 1 2 0
           (face_block (vec3 2 0 1) (vec3 6 0 3))) k j i =
      (if (k, j, i) \<in> set (TvdlfHD_range IDIR (face_block (vec3 2 0 1) (vec3 6 0 3)))
       then map_option snd
              (TvdlfHD_face euler_cfg euler_PrimToCons euler_Flux 1 2 0
                 (\<lambda>nv. PrimL (face_block (vec3 2 0 1) (vec3 6 0 3)) nv k j i)
                 (\<lambda>nv. PrimR (face_block (vec3 2 0 1) (vec3 6 0 3)) nv k j i))
       else cMax (face_block (vec3 2 0 1) (vec3 6 0 3)) k j i)" for k j i
    by blast
  show ?thesis
    using l w [of 0 0 1] w [of 0 0 2] f
    by (simp add: r m face_block_PrimL face_block_PrimR)
qed

section \<open>Properties of the geometry\<close>

lemma vals_frame [simp]:
  "Volumes_val cfg (d\<lparr>dV := udV\<rparr>) = Volumes_val cfg d"
  "Volumes_val cfg (d\<lparr>A_arr := uAarr\<rparr>) = Volumes_val cfg d"
  "Volumes_val cfg (d\<lparr>xgc := uxgc\<rparr>) = Volumes_val cfg d"
  "Volumes_val cfg (d\<lparr>rt := urt\<rparr>) = Volumes_val cfg d"
  "Volumes_val cfg (d\<lparr>sm := usm\<rparr>) = Volumes_val cfg d"
  "Volumes_val cfg (d\<lparr>s_arr := usarr\<rparr>) = Volumes_val cfg d"
  "Volumes_val cfg (d\<lparr>dmu := udmu\<rparr>) = Volumes_val cfg d"
  "x1gc_val cfg (d\<lparr>dV := udV\<rparr>) = x1gc_val cfg d"
  "x1gc_val cfg (d\<lparr>A_arr := uAarr\<rparr>) = x1gc_val cfg d"
  "x1gc_val cfg (d\<lparr>xgc := uxgc\<rparr>) = x1gc_val cfg d"
  "x1gc_val cfg (d\<lparr>rt := urt\<rparr>) = x1gc_val cfg d"
  "x1gc_val cfg (d\<lparr>sm := usm\<rparr>) = x1gc_val cfg d"
  "x1gc_val cfg (d\<lparr>s_arr := usarr\<rparr>) = x1gc_val cfg d"
  "x1gc_val cfg (d\<lparr>dmu := udmu\<rparr>) = x1gc_val cfg d"
  "rt_val (d\<lparr>dV := udV\<rparr>) = rt_val d"
  "rt_val (d\<lparr>A_arr := uAarr\<rparr>) = rt_val d"
  "rt_val (d\<lparr>xgc := uxgc\<rparr>) = rt_val d"
  "rt_val (d\<lparr>rt := urt\<rparr>) = rt_val d"
  "rt_val (d\<lparr>sm := usm\<rparr>) = rt_val d"
  "rt_val (d\<lparr>s_arr := usarr\<rparr>) = rt_val d"
  "rt_val (d\<lparr>dmu := udmu\<rparr>) = rt_val d"
  "x2gc_val cfg (d\<lparr>dV := udV\<rparr>) = x2gc_val cfg d"
  "x2gc_val cfg (d\<lparr>A_arr := uAarr\<rparr>) = x2gc_val cfg d"
  "x2gc_val cfg (d\<lparr>xgc := uxgc\<rparr>) = x2gc_val cfg d"
  "x2gc_val cfg (d\<lparr>rt := urt\<rparr>) = x2gc_val cfg d"
  "x2gc_val cfg (d\<lparr>sm := usm\<rparr>) = x2gc_val cfg d"
  "x2gc_val cfg (d\<lparr>s_arr := usarr\<rparr>) = x2gc_val cfg d"
  "x2gc_val cfg (d\<lparr>dmu := udmu\<rparr>) = x2gc_val cfg d"
  "AreaX1_val cfg (d\<lparr>dV := udV\<rparr>) = AreaX1_val cfg d"
  "AreaX1_val cfg (d\<lparr>A_arr := uAarr\<rparr>) = AreaX1_val cfg d"
  "AreaX1_val cfg (d\<lparr>xgc := uxgc\<rparr>) = AreaX1_val cfg d"
  "AreaX1_val cfg (d\<lparr>rt := urt\<rparr>) = AreaX1_val cfg d"
  "AreaX1_val cfg (d\<lparr>sm := usm\<rparr>) = AreaX1_val cfg d"
  "AreaX1_val cfg (d\<lparr>s_arr := usarr\<rparr>) = AreaX1_val cfg d"
  "AreaX1_val cfg (d\<lparr>dmu := udmu\<rparr>) = AreaX1_val cfg d"
  "AreaX2_val cfg (d\<lparr>dV := udV\<rparr>) = AreaX2_val cfg d"
  "AreaX2_val cfg (d\<lparr>A_arr := uAarr\<rparr>) = AreaX2_val cfg d"
  "AreaX2_val cfg (d\<lparr>xgc := uxgc\<rparr>) = AreaX2_val cfg d"
  "AreaX2_val cfg (d\<lparr>rt := urt\<rparr>) = AreaX2_val cfg d"
  "AreaX2_val cfg (d\<lparr>sm := usm\<rparr>) = AreaX2_val cfg d"
  "AreaX2_val cfg (d\<lparr>s_arr := usarr\<rparr>) = AreaX2_val cfg d"
  "AreaX2_val cfg (d\<lparr>dmu := udmu\<rparr>) = AreaX2_val cfg d"
  "AreaX3_val cfg (d\<lparr>dV := udV\<rparr>) = AreaX3_val cfg d"
  "AreaX3_val cfg (d\<lparr>A_arr := uAarr\<rparr>) = AreaX3_val cfg d"
  "AreaX3_val cfg (d\<lparr>xgc := uxgc\<rparr>) = AreaX3_val cfg d"
  "AreaX3_val cfg (d\<lparr>rt := urt\<rparr>) = AreaX3_val cfg d"
  "AreaX3_val cfg (d\<lparr>sm := usm\<rparr>) = AreaX3_val cfg d"
  "AreaX3_val cfg (d\<lparr>s_arr := usarr\<rparr>) = AreaX3_val cfg d"
  "AreaX3_val cfg (d\<lparr>dmu := udmu\<rparr>) = AreaX3_val cfg d"
  by (auto intro!: ext simp: Volumes_val_def x1gc_val_def rt_val_def x2gc_val_def
      AreaX1_val_def AreaX2_val_def AreaX3_val_def)

lemma Volumes_fold:
  "fold (\<lambda>(k, j, i). Volumes cfg k j i) idxs d =
     d\<lparr>dV := (\<lambda>k j i. if (k, j, i) \<in> set idxs then Volumes_val cfg d k j i else dV d k j i)\<rparr>"
proof (induction idxs arbitrary: d)
  case Nil
  show ?case by simp
next
  case (Cons a idxs)
  obtain k j i where a: "a = (k, j, i)" by (cases a) auto
  show ?case
    unfolding a
    apply (simp add: Cons.IH)
    apply (simp add: Volumes_def write3_def fun_eq_iff)
    done
qed

lemma GeometricalCentersX1_fold:
  "fold (GeometricalCentersX1 cfg) idxs d =
     d\<lparr>xgc := (xgc d)(IDIR := (\<lambda>i. if i \<in> set idxs then x1gc_val cfg d i else xgc d IDIR i)),
       rt := (\<lambda>i. if GEOMETRY cfg = SPHERICAL \<and> i \<in> set idxs then rt_val d i else rt d i)\<rparr>"
proof (induction idxs arbitrary: d)
  case Nil
  show ?case by simp
next
  case (Cons a idxs)
  show ?case
    apply (simp add: Cons.IH)
    apply (simp add: GeometricalCentersX1_def write1_def fun_eq_iff Let_def)
    done
qed


lemma GeometricalCentersX2_eq:
  "GeometricalCentersX2 cfg j d =
     d\<lparr>xgc := (xgc d)(JDIR := write1 (xgc d JDIR) j (x2gc_val cfg d j)),
       sm := (if GEOMETRY cfg = SPHERICAL then write1 (sm d) j (Some (FABS (sin (xl d JDIR j))))
              else sm d),
       s_arr := (if GEOMETRY cfg = SPHERICAL
                 then write1 (s_arr d) j (Some (FABS (sin (x_arr d JDIR j)))) else s_arr d),
       dmu := (if GEOMETRY cfg = SPHERICAL
               then write1 (dmu d) j (Some (FABS (cos (xl d JDIR j) - cos (xr d JDIR j))))
               else dmu d)\<rparr>"
  by (simp add: GeometricalCentersX2_def Let_def)

lemma GeometricalCentersX2_fold:
  "fold (GeometricalCentersX2 cfg) idxs d =
     d\<lparr>xgc := (xgc d)(JDIR := (\<lambda>j. if j \<in> set idxs then x2gc_val cfg d j else xgc d JDIR j)),
       sm := (\<lambda>j. if GEOMETRY cfg = SPHERICAL \<and> j \<in> set idxs
                   then Some (FABS (sin (xl d JDIR j))) else sm d j),
       s_arr := (\<lambda>j. if GEOMETRY cfg = SPHERICAL \<and> j \<in> set idxs
                      then Some (FABS (sin (x_arr d JDIR j))) else s_arr d j),
       dmu := (\<lambda>j. if GEOMETRY cfg = SPHERICAL \<and> j \<in> set idxs
                    then Some (FABS (cos (xl d JDIR j) - cos (xr d JDIR j))) else dmu d j)\<rparr>"
proof (induction idxs arbitrary: d)
  case Nil
  show ?case by simp
next
  case (Cons a idxs)
  have e: "fold (GeometricalCentersX2 cfg) (a # idxs) d =
           fold (GeometricalCentersX2 cfg) idxs (GeometricalCentersX2 cfg a d)"
    by simp
  show ?case
    unfolding e Cons.IH
    by (rule DataBlock.equality)
       (simp_all add: GeometricalCentersX2_eq write1_def fun_eq_iff)
qed

lemma GeometricalCentersX3_fold:
  "fold GeometricalCentersX3 idxs d =
     d\<lparr>xgc := (xgc d)(KDIR := (\<lambda>k. if k \<in> set idxs then Some (x_arr d KDIR k) else xgc d KDIR k))\<rparr>"
proof (induction idxs arbitrary: d)
  case Nil
  show ?case by simp
next
  case (Cons a idxs)
  show ?case
    apply (simp add: Cons.IH)
    apply (simp add: GeometricalCentersX3_def write1_def fun_eq_iff)
    done
qed

lemma AreaX1_fold:
  "fold (\<lambda>(k, j, i). AreaX1 cfg k j i) idxs d =
     d\<lparr>A_arr := (A_arr d)(IDIR :=
          (\<lambda>k j i. if (k, j, i) \<in> set idxs then AreaX1_val cfg d k j i else A_arr d IDIR k j i))\<rparr>"
proof (induction idxs arbitrary: d)
  case Nil
  show ?case by simp
next
  case (Cons a idxs)
  obtain k j i where a: "a = (k, j, i)" by (cases a) auto
  show ?case
    unfolding a
    apply (simp add: Cons.IH)
    apply (simp add: AreaX1_def write3_def fun_eq_iff)
    done
qed

lemma AreaX2_fold:
  "fold (\<lambda>(k, j, i). AreaX2 cfg k j i) idxs d =
     d\<lparr>A_arr := (A_arr d)(JDIR :=
          (\<lambda>k j i. if (k, j, i) \<in> set idxs then AreaX2_val cfg d k j i else A_arr d JDIR k j i))\<rparr>"
proof (induction idxs arbitrary: d)
  case Nil
  show ?case by simp
next
  case (Cons a idxs)
  obtain k j i where a: "a = (k, j, i)" by (cases a) auto
  show ?case
    unfolding a
    apply (simp add: Cons.IH)
    apply (simp add: AreaX2_def write3_def fun_eq_iff)
    done
qed

lemma AreaX3_fold:
  "fold (\<lambda>(k, j, i). AreaX3 cfg k j i) idxs d =
     d\<lparr>A_arr := (A_arr d)(KDIR :=
          (\<lambda>k j i. if (k, j, i) \<in> set idxs then AreaX3_val cfg d k j i else A_arr d KDIR k j i))\<rparr>"
proof (induction idxs arbitrary: d)
  case Nil
  show ?case by simp
next
  case (Cons a idxs)
  obtain k j i where a: "a = (k, j, i)" by (cases a) auto
  show ?case
    unfolding a
    apply (simp add: Cons.IH)
    apply (simp add: AreaX3_def write3_def fun_eq_iff)
    done
qed

text \<open>
  As for the solver, each loop of the geometry depends on the set of its indices only,
  not on the order in which the bodies run.
\<close>

lemma geometry_any_order:
  assumes "set idxs = set idxs'" and "set js = set js'"
  shows "fold (\<lambda>(k, j, i). Volumes cfg k j i) idxs d = fold (\<lambda>(k, j, i). Volumes cfg k j i) idxs' d"
    and "fold (\<lambda>(k, j, i). AreaX1 cfg k j i) idxs d = fold (\<lambda>(k, j, i). AreaX1 cfg k j i) idxs' d"
    and "fold (\<lambda>(k, j, i). AreaX2 cfg k j i) idxs d = fold (\<lambda>(k, j, i). AreaX2 cfg k j i) idxs' d"
    and "fold (\<lambda>(k, j, i). AreaX3 cfg k j i) idxs d = fold (\<lambda>(k, j, i). AreaX3 cfg k j i) idxs' d"
    and "fold (GeometricalCentersX1 cfg) js d = fold (GeometricalCentersX1 cfg) js' d"
    and "fold (GeometricalCentersX2 cfg) js d = fold (GeometricalCentersX2 cfg) js' d"
    and "fold GeometricalCentersX3 js d = fold GeometricalCentersX3 js' d"
  by (simp_all add: Volumes_fold AreaX1_fold AreaX2_fold AreaX3_fold
      GeometricalCentersX1_fold GeometricalCentersX2_fold GeometricalCentersX3_fold assms)

lemmas MakeGeometry_unfold =
  MakeGeometry_def Let_def idefix_for3_def idefix_for1_def
  Volumes_fold GeometricalCentersX1_fold GeometricalCentersX2_fold GeometricalCentersX3_fold
  AreaX1_fold AreaX2_fold AreaX3_fold set_idefix_range3

lemma MakeGeometry_dV:
  "dV (MakeGeometry cfg d) k j i =
     (if 0 \<le> k \<and> k < np_tot d KDIR \<and> 0 \<le> j \<and> j < np_tot d JDIR \<and> 0 \<le> i \<and> i < np_tot d IDIR
      then Volumes_val cfg d k j i else dV d k j i)"
  by (simp add: MakeGeometry_unfold)

lemma MakeGeometry_x1gc:
  "xgc (MakeGeometry cfg d) IDIR i =
     (if 0 \<le> i \<and> i < np_tot d IDIR then x1gc_val cfg d i else xgc d IDIR i)"
  by (simp add: MakeGeometry_unfold)

lemma MakeGeometry_rt:
  "rt (MakeGeometry cfg d) i =
     (if GEOMETRY cfg = SPHERICAL \<and> 0 \<le> i \<and> i < np_tot d IDIR then rt_val d i else rt d i)"
  by (simp add: MakeGeometry_unfold)

lemma MakeGeometry_x2gc:
  "xgc (MakeGeometry cfg d) JDIR j =
     (if 0 \<le> j \<and> j < np_tot d JDIR then x2gc_val cfg d j else xgc d JDIR j)"
  by (simp add: MakeGeometry_unfold)

lemma MakeGeometry_x3gc:
  "xgc (MakeGeometry cfg d) KDIR k =
     (if 0 \<le> k \<and> k < np_tot d KDIR then Some (x_arr d KDIR k) else xgc d KDIR k)"
  by (simp add: MakeGeometry_unfold)

lemma MakeGeometry_sm:
  "sm (MakeGeometry cfg d) j =
     (if GEOMETRY cfg = SPHERICAL \<and> 0 \<le> j \<and> j < np_tot d JDIR
      then Some (FABS (sin (xl d JDIR j))) else sm d j)"
  and MakeGeometry_s:
  "s_arr (MakeGeometry cfg d) j =
     (if GEOMETRY cfg = SPHERICAL \<and> 0 \<le> j \<and> j < np_tot d JDIR
      then Some (FABS (sin (x_arr d JDIR j))) else s_arr d j)"
  and MakeGeometry_dmu:
  "dmu (MakeGeometry cfg d) j =
     (if GEOMETRY cfg = SPHERICAL \<and> 0 \<le> j \<and> j < np_tot d JDIR
      then Some (FABS (cos (xl d JDIR j) - cos (xr d JDIR j))) else dmu d j)"
  by (simp_all add: MakeGeometry_unfold)

lemma MakeGeometry_Ax1:
  "A_arr (MakeGeometry cfg d) IDIR k j i =
     (if 0 \<le> k \<and> k < np_tot d KDIR \<and> 0 \<le> j \<and> j < np_tot d JDIR \<and>
         0 \<le> i \<and> i < np_tot d IDIR + IOFFSET cfg
      then AreaX1_val cfg d k j i else A_arr d IDIR k j i)"
  by (simp add: MakeGeometry_unfold)

lemma MakeGeometry_Ax2:
  "A_arr (MakeGeometry cfg d) JDIR k j i =
     (if 0 \<le> k \<and> k < np_tot d KDIR \<and> 0 \<le> j \<and> j < np_tot d JDIR + JOFFSET cfg \<and>
         0 \<le> i \<and> i < np_tot d IDIR
      then AreaX2_val cfg d k j i else A_arr d JDIR k j i)"
  by (simp add: MakeGeometry_unfold)

lemma MakeGeometry_Ax3:
  "A_arr (MakeGeometry cfg d) KDIR k j i =
     (if 0 \<le> k \<and> k < np_tot d KDIR + KOFFSET cfg \<and> 0 \<le> j \<and> j < np_tot d JDIR \<and>
         0 \<le> i \<and> i < np_tot d IDIR
      then AreaX3_val cfg d k j i else A_arr d KDIR k j i)"
  by (simp add: MakeGeometry_unfold)

lemma MakeGeometry_grid:
  "np_tot (MakeGeometry cfg d) = np_tot d"
  "x_arr (MakeGeometry cfg d) = x_arr d"
  "dx (MakeGeometry cfg d) = dx d"
  "xr (MakeGeometry cfg d) = xr d"
  "xl (MakeGeometry cfg d) = xl d"
  by (simp_all add: MakeGeometry_unfold)


lemma D_EXPAND_pos: "0 < a \<Longrightarrow> 0 < b \<Longrightarrow> 0 < c \<Longrightarrow> 0 < D_EXPAND dims a b c"
  by (simp add: D_EXPAND_def)

lemma square_diff_nonzero:
  fixes a b :: real
  assumes "a < b" and "a + b \<noteq> 0"
  shows "b * b - a * a \<noteq> 0"
proof -
  have "b * b - a * a = (b - a) * (a + b)" by (simp add: algebra_simps)
  moreover have "b - a \<noteq> 0" using assms(1) by simp
  ultimately show ?thesis using assms(2) by simp
qed

lemma cube_diff_nonzero:
  fixes a b :: real
  assumes "a < b"
  shows "b * b * b - a * a * a \<noteq> 0"
proof -
  have e: "2 * (b * b * b - a * a * a) = (b - a) * ((a + b)\<^sup>2 + a\<^sup>2 + b\<^sup>2)"
    by (simp add: algebra_simps power2_eq_square)
  have "a \<noteq> 0 \<or> b \<noteq> 0" using assms by auto
  then have "0 < a\<^sup>2 + b\<^sup>2" by (auto simp: sum_power2_gt_zero_iff)
  moreover have "0 \<le> (a + b)\<^sup>2" by simp
  ultimately have "0 < (a + b)\<^sup>2 + a\<^sup>2 + b\<^sup>2" by linarith
  moreover have "0 < b - a" using assms by simp
  ultimately have "0 < (b - a) * ((a + b)\<^sup>2 + a\<^sup>2 + b\<^sup>2)" by (rule mult_pos_pos[rotated])
  then have "0 < 2 * (b * b * b - a * a * a)" by (simp only: e)
  then show ?thesis by simp
qed

lemma grid_block_sel:
  "np_tot (grid_block n X DX XL XR) = (\<lambda>d. n)"
  "x_arr (grid_block n X DX XL XR) = X"
  "dx (grid_block n X DX XL XR) = DX"
  "xl (grid_block n X DX XL XR) = XL"
  "xr (grid_block n X DX XL XR) = XR"
  by (simp_all add: grid_block_def)

lemma geom_cfg_sel:
  "GEOMETRY (geom_cfg g dims) = g"
  "DIMENSIONS (geom_cfg g dims) = dims"
  "IOFFSET (geom_cfg g dims) = 1"
  "JOFFSET (geom_cfg g dims) = (if 2 \<le> dims then 1 else 0)"
  "KOFFSET (geom_cfg g dims) = (if 3 \<le> dims then 1 else 0)"
  by (simp_all add: geom_cfg_def)

lemma Some_pos: "0 < a \<Longrightarrow> \<exists>v. Some a = Some v \<and> 0 < (v::real)"
  by simp

lemma Volumes_val_geometry:
  "GEOMETRY cfg = CARTESIAN \<Longrightarrow>
     Volumes_val cfg d k j i = Some (D_EXPAND (DIMENSIONS cfg) (dx d IDIR i) (dx d JDIR j) (dx d KDIR k))"
  "GEOMETRY cfg = CYLINDRICAL \<Longrightarrow>
     Volumes_val cfg d k j i =
       Some (D_EXPAND (DIMENSIONS cfg)
               (\<bar>xr d IDIR i * xr d IDIR i - xl d IDIR i * xl d IDIR i\<bar> / 2) (dx d JDIR j) 1)"
  "GEOMETRY cfg = POLAR \<Longrightarrow>
     Volumes_val cfg d k j i =
       Some (D_EXPAND (DIMENSIONS cfg)
               (\<bar>xr d IDIR i * xr d IDIR i - xl d IDIR i * xl d IDIR i\<bar> / 2) (dx d JDIR j) (dx d KDIR k))"
  "GEOMETRY cfg = SPHERICAL \<Longrightarrow>
     Volumes_val cfg d k j i =
       Some (D_EXPAND (DIMENSIONS cfg)
               (\<bar>xr d IDIR i * xr d IDIR i * xr d IDIR i - xl d IDIR i * xl d IDIR i * xl d IDIR i\<bar> / 3)
               \<bar>cos (xl d JDIR j) - cos (xr d JDIR j)\<bar> (dx d KDIR k))"
  by (simp_all add: Volumes_val_def fdiv_def FABS_def Let_def)

text \<open>
  Claim C3, as stated, fails: strictly increasing sequences do not keep the two faces of
  a radial cell from having the same square. On a cylindrical grid with faces at \<open>-1\<close>,
  \<open>1\<close> and \<open>4\<close> (centres \<open>0\<close> and \<open>5/2\<close>, spacings \<open>2\<close> and \<open>3\<close>) every sequence
  is strictly increasing and the volume of the first cell is \<open>|1 - 1| / 2 = 0\<close>.
\<close>

theorem volume_positivity_counterexample:
  "spec_valid_axis axis_grid IDIR \<and> spec_valid_axis axis_grid JDIR \<and>
   spec_valid_axis axis_grid KDIR \<and>
   dV (MakeGeometry (geom_cfg CYLINDRICAL 2) axis_grid) 0 0 0 = Some 0"
proof -
  have "spec_valid_axis axis_grid a" for a
    by (simp add: spec_valid_axis_def spec_increasing_def axis_grid_def grid_block_sel)
  moreover have "dV (MakeGeometry (geom_cfg CYLINDRICAL 2) axis_grid) 0 0 0 = Some 0"
    by (simp add: MakeGeometry_dV Volumes_val_geometry axis_grid_def grid_block_sel geom_cfg_sel
        D_EXPAND_def)
  ultimately show ?thesis by simp
qed

text \<open>
  Claim C3, amended. For each of the four geometries and every cell index, interior and
  ghost alike, at which the three spacings are positive and the left radial face lies
  below the right one, where moreover the two radial faces are not opposite numbers in
  cylindrical and polar geometry, and the two polar face angles have different cosines
  in spherical geometry: the stored cell volume is a finite number and strictly
  positive.
\<close>

theorem volume_positive:
  assumes "0 \<le> k" "k < np_tot d KDIR" "0 \<le> j" "j < np_tot d JDIR" "0 \<le> i" "i < np_tot d IDIR"
    and "0 < dx d IDIR i" "0 < dx d JDIR j" "0 < dx d KDIR k"
    and "xl d IDIR i < xr d IDIR i"
    and "GEOMETRY cfg = CYLINDRICAL \<or> GEOMETRY cfg = POLAR \<Longrightarrow> xl d IDIR i + xr d IDIR i \<noteq> 0"
    and "GEOMETRY cfg = SPHERICAL \<Longrightarrow> cos (xl d JDIR j) \<noteq> cos (xr d JDIR j)"
  shows "\<exists>v. dV (MakeGeometry cfg d) k j i = Some v \<and> 0 < v"
proof -
  have v: "dV (MakeGeometry cfg d) k j i = Volumes_val cfg d k j i"
    using assms(1-6) by (simp add: MakeGeometry_dV)
  have sq: "0 < \<bar>xr d IDIR i * xr d IDIR i - xl d IDIR i * xl d IDIR i\<bar> / 2"
    if "GEOMETRY cfg = CYLINDRICAL \<or> GEOMETRY cfg = POLAR"
  proof -
    have "xl d IDIR i + xr d IDIR i \<noteq> 0" using that by (rule assms(11))
    with assms(10) have "xr d IDIR i * xr d IDIR i - xl d IDIR i * xl d IDIR i \<noteq> 0"
      by (rule square_diff_nonzero)
    then show ?thesis by simp
  qed
  have one: "(0::real) < 1" by simp
  show ?thesis
  proof (cases "GEOMETRY cfg")
    case CARTESIAN
    show ?thesis
      unfolding v Volumes_val_geometry(1)[OF CARTESIAN]
      by (intro Some_pos D_EXPAND_pos assms(7-9))
  next
    case CYLINDRICAL
    show ?thesis
      unfolding v Volumes_val_geometry(2)[OF CYLINDRICAL]
      by (intro Some_pos D_EXPAND_pos sq assms(8) one disjI1 CYLINDRICAL)
  next
    case POLAR
    show ?thesis
      unfolding v Volumes_val_geometry(3)[OF POLAR]
      by (intro Some_pos D_EXPAND_pos sq assms(8,9) disjI2 POLAR)
  next
    case SPHERICAL
    have "xr d IDIR i * xr d IDIR i * xr d IDIR i - xl d IDIR i * xl d IDIR i * xl d IDIR i \<noteq> 0"
      using assms(10) by (rule cube_diff_nonzero)
    then have r: "0 < \<bar>xr d IDIR i * xr d IDIR i * xr d IDIR i
                       - xl d IDIR i * xl d IDIR i * xl d IDIR i\<bar> / 3"
      by simp
    have m: "0 < \<bar>cos (xl d JDIR j) - cos (xr d JDIR j)\<bar>"
      using assms(12)[OF SPHERICAL] by simp
    show ?thesis
      unfolding v Volumes_val_geometry(4)[OF SPHERICAL]
      by (intro Some_pos D_EXPAND_pos r m assms(9))
  qed
qed

theorem volume_positive_witness:
  "\<exists>v. dV (MakeGeometry (geom_cfg SPHERICAL 3) shell_grid) 0 0 0 = Some v \<and> 0 < v"
proof -
  have g: "np_tot shell_grid = (\<lambda>d. 1)" "dx shell_grid IDIR 0 = 1" "dx shell_grid JDIR 0 = pi / 2"
    "dx shell_grid KDIR 0 = 1" "xl shell_grid IDIR 0 = 1" "xr shell_grid IDIR 0 = 2"
    "xl shell_grid JDIR 0 = 0" "xr shell_grid JDIR 0 = pi / 2"
    by (simp_all add: shell_grid_def grid_block_sel)
  show ?thesis
    by (rule volume_positive) (simp_all add: g geom_cfg_sel)
qed


text \<open>
  Claim C4, as stated, fails for the radius-weighted mean: \<^verbatim>\<open>rt\<close> divides the signed
  difference of the cubes by the signed difference of the squares. On a cell from
  \<open>-2\<close> to \<open>-1\<close> the code stores \<open>(-1 + 8) / (1 - 4) / 1.5 = -14/9\<close>; with both
  differences passed through an absolute value it would be \<open>14/9\<close>.
\<close>

theorem radius_mean_counterexample:
  "rt (MakeGeometry (geom_cfg SPHERICAL 3) inner_grid) 0 = Some (- (14 / 9)) \<and>
   spec_rt_abs inner_grid 0 = Some (14 / 9)"
  by (simp add: MakeGeometry_rt rt_val_def spec_rt_abs_def inner_grid_def grid_block_sel
      geom_cfg_sel fdiv_def)

text \<open>
  Claim C4, amended. At every cell index the cylindrical and polar volumes are built
  from \<open>|r\<^sub>r\<^sup>2 - r\<^sub>l\<^sup>2| / 2\<close> and the spherical volume from \<open>|r\<^sub>r\<^sup>3 - r\<^sub>l\<^sup>3| / 3\<close>: these
  differences pass through an absolute value. The spherical mean \<^verbatim>\<open>rt\<close> is
  \<open>(r\<^sub>r\<^sup>3 - r\<^sub>l\<^sup>3) / (r\<^sub>r\<^sup>2 - r\<^sub>l\<^sup>2) / 1.5\<close> with both differences signed (and not a
  finite number when the squares are equal).
\<close>

theorem radius_differences:
  assumes "0 \<le> k" "k < np_tot d KDIR" "0 \<le> j" "j < np_tot d JDIR" "0 \<le> i" "i < np_tot d IDIR"
  shows "(GEOMETRY cfg = CYLINDRICAL \<longrightarrow>
            dV (MakeGeometry cfg d) k j i =
              Some (D_EXPAND (DIMENSIONS cfg) (\<bar>(xr d IDIR i)\<^sup>2 - (xl d IDIR i)\<^sup>2\<bar> / 2) (dx d JDIR j) 1)) \<and>
         (GEOMETRY cfg = POLAR \<longrightarrow>
            dV (MakeGeometry cfg d) k j i =
              Some (D_EXPAND (DIMENSIONS cfg) (\<bar>(xr d IDIR i)\<^sup>2 - (xl d IDIR i)\<^sup>2\<bar> / 2)
                      (dx d JDIR j) (dx d KDIR k))) \<and>
         (GEOMETRY cfg = SPHERICAL \<longrightarrow>
            dV (MakeGeometry cfg d) k j i =
              Some (D_EXPAND (DIMENSIONS cfg) (\<bar>(xr d IDIR i) ^ 3 - (xl d IDIR i) ^ 3\<bar> / 3)
                      \<bar>cos (xl d JDIR j) - cos (xr d JDIR j)\<bar> (dx d KDIR k)) \<and>
            rt (MakeGeometry cfg d) i =
              (if (xr d IDIR i)\<^sup>2 = (xl d IDIR i)\<^sup>2 then None
               else Some (((xr d IDIR i) ^ 3 - (xl d IDIR i) ^ 3)
                            / ((xr d IDIR i)\<^sup>2 - (xl d IDIR i)\<^sup>2) / (3 / 2))))"
  using assms
  by (simp add: MakeGeometry_dV MakeGeometry_rt Volumes_val_geometry rt_val_def fdiv_def
      Let_def power2_eq_square power3_eq_cube)

theorem radius_differences_witness:
  "dV (MakeGeometry (geom_cfg SPHERICAL 3) shell_grid) 0 0 0 = Some (7 / 3) \<and>
   rt (MakeGeometry (geom_cfg SPHERICAL 3) shell_grid) 0 = Some (14 / 9)"
proof -
  have g: "np_tot shell_grid = (\<lambda>d. 1)" "dx shell_grid KDIR 0 = 1"
    "xl shell_grid IDIR 0 = 1" "xr shell_grid IDIR 0 = 2"
    "xl shell_grid JDIR 0 = 0" "xr shell_grid JDIR 0 = pi / 2"
    by (simp_all add: shell_grid_def grid_block_sel)
  show ?thesis
    using radius_differences [of 0 shell_grid 0 0 "geom_cfg SPHERICAL 3"]
    by (simp add: g geom_cfg_sel D_EXPAND_def)
qed

lemma AreaX1_val_geometry:
  "AreaX1_val cfg d k j i =
     (let r = (if i = np_tot d IDIR then xr d IDIR (i - 1) else xl d IDIR i)
      in case GEOMETRY cfg of
           CARTESIAN \<Rightarrow> Some (D_EXPAND (DIMENSIONS cfg) 1 (dx d JDIR j) (dx d KDIR k))
         | CYLINDRICAL \<Rightarrow> Some (D_EXPAND (DIMENSIONS cfg) \<bar>r\<bar> (dx d JDIR j) 1)
         | POLAR \<Rightarrow> Some (D_EXPAND (DIMENSIONS cfg) \<bar>r\<bar> (dx d JDIR j) (dx d KDIR k))
         | SPHERICAL \<Rightarrow>
             Some (D_EXPAND (DIMENSIONS cfg) (r * r)
                     \<bar>cos (xl d JDIR j) - cos (xr d JDIR j)\<bar> (dx d KDIR k)))"
  by (cases "GEOMETRY cfg") (simp_all add: AreaX1_val_def FABS_def Let_def)

lemma AreaX2_val_spherical:
  "GEOMETRY cfg = SPHERICAL \<Longrightarrow>
   AreaX2_val cfg d k j i =
     Some (D_EXPAND (DIMENSIONS cfg) (x_arr d IDIR i * dx d IDIR i)
             \<bar>sin (if j = np_tot d JDIR then xr d JDIR (j - 1) else xl d JDIR j)\<bar> (dx d KDIR k))"
  by (simp add: AreaX2_val_def FABS_def Let_def)

text \<open>
  Claim C5. At every face index of the radial area loop the area is built from the
  radius \<open>r\<close> that is the left face \<^verbatim>\<open>xl[i]\<close>, except at \<open>i = np_tot\<close>, the last face,
  where it is the right face \<^verbatim>\<open>xr[i - 1]\<close> of the last cell: \<open>|r|\<close> times the
  transverse spacings in cylindrical and polar geometry, \<open>r\<^sup>2\<close> times the solid-angle
  factors in spherical geometry. In spherical geometry the area of a polar-angle face
  is built in the same way from \<open>|sin \<theta>|\<close>, with \<open>\<theta>\<close> the left face angle \<^verbatim>\<open>xl[j]\<close>
  except at the last face \<open>j = np_tot\<close>, where it is \<^verbatim>\<open>xr[j - 1]\<close>.
\<close>

theorem last_face_uses_right_radius:
  "(0 \<le> k \<and> k < np_tot d KDIR \<and> 0 \<le> j \<and> j < np_tot d JDIR \<and>
    0 \<le> i \<and> i < np_tot d IDIR + IOFFSET cfg \<longrightarrow>
      A_arr (MakeGeometry cfg d) IDIR k j i =
        (let r = (if i = np_tot d IDIR then xr d IDIR (i - 1) else xl d IDIR i)
         in case GEOMETRY cfg of
              CARTESIAN \<Rightarrow> Some (D_EXPAND (DIMENSIONS cfg) 1 (dx d JDIR j) (dx d KDIR k))
            | CYLINDRICAL \<Rightarrow> Some (D_EXPAND (DIMENSIONS cfg) \<bar>r\<bar> (dx d JDIR j) 1)
            | POLAR \<Rightarrow> Some (D_EXPAND (DIMENSIONS cfg) \<bar>r\<bar> (dx d JDIR j) (dx d KDIR k))
            | SPHERICAL \<Rightarrow>
                Some (D_EXPAND (DIMENSIONS cfg) (r * r)
                        \<bar>cos (xl d JDIR j) - cos (xr d JDIR j)\<bar> (dx d KDIR k)))) \<and>
   (GEOMETRY cfg = SPHERICAL \<and> 0 \<le> k \<and> k < np_tot d KDIR \<and>
    0 \<le> j \<and> j < np_tot d JDIR + JOFFSET cfg \<and> 0 \<le> i \<and> i < np_tot d IDIR \<longrightarrow>
      A_arr (MakeGeometry cfg d) JDIR k j i =
        Some (D_EXPAND (DIMENSIONS cfg) (x_arr d IDIR i * dx d IDIR i)
                \<bar>sin (if j = np_tot d JDIR then xr d JDIR (j - 1) else xl d JDIR j)\<bar>
                (dx d KDIR k)))"
  by (simp add: MakeGeometry_Ax1 MakeGeometry_Ax2 AreaX1_val_geometry AreaX2_val_spherical)

theorem last_face_uses_right_radius_witness:
  "A_arr (MakeGeometry (geom_cfg SPHERICAL 3) shell_grid) IDIR 0 0 0 = Some 1 \<and>
   A_arr (MakeGeometry (geom_cfg SPHERICAL 3) shell_grid) IDIR 0 0 1 = Some 4 \<and>
   A_arr (MakeGeometry (geom_cfg SPHERICAL 3) shell_grid) JDIR 0 0 0 = Some 0 \<and>
   A_arr (MakeGeometry (geom_cfg SPHERICAL 3) shell_grid) JDIR 0 1 0 = Some (3 / 2)"
proof -
  have g: "np_tot shell_grid = (\<lambda>d. 1)" "dx shell_grid KDIR 0 = 1" "dx shell_grid IDIR 0 = 1"
    "x_arr shell_grid IDIR 0 = 3 / 2"
    "xl shell_grid IDIR 0 = 1" "xr shell_grid IDIR 0 = 2"
    "xl shell_grid JDIR 0 = 0" "xr shell_grid JDIR 0 = pi / 2"
    by (simp_all add: shell_grid_def grid_block_sel)
  show ?thesis
    using last_face_uses_right_radius [of 0 shell_grid 0 0 "geom_cfg SPHERICAL 3"]
      last_face_uses_right_radius [of 0 shell_grid 0 1 "geom_cfg SPHERICAL 3"]
      last_face_uses_right_radius [of 0 shell_grid 1 0 "geom_cfg SPHERICAL 3"]
    by (simp add: g geom_cfg_sel D_EXPAND_def)
qed


lemma x1gc_val_spherical:
  "GEOMETRY cfg = SPHERICAL \<Longrightarrow>
   x1gc_val cfg d i = None \<longleftrightarrow> x_arr d IDIR i = 0 \<and> dx d IDIR i = 0"
proof -
  have "12 * x_arr d IDIR i * x_arr d IDIR i + dx d IDIR i * dx d IDIR i = 0 \<longleftrightarrow>
        x_arr d IDIR i = 0 \<and> dx d IDIR i = 0"
  proof
    assume z: "12 * x_arr d IDIR i * x_arr d IDIR i + dx d IDIR i * dx d IDIR i = 0"
    have "0 \<le> x_arr d IDIR i * x_arr d IDIR i" and "0 \<le> dx d IDIR i * dx d IDIR i" by simp_all
    with z have "x_arr d IDIR i * x_arr d IDIR i = 0" and "dx d IDIR i * dx d IDIR i = 0"
      by linarith+
    then show "x_arr d IDIR i = 0 \<and> dx d IDIR i = 0" by simp
  qed simp
  moreover assume "GEOMETRY cfg = SPHERICAL"
  ultimately show ?thesis
    by (simp add: x1gc_val_def fdiv_def Let_def)
qed

lemma rt_val_None:
  "rt_val d i = None \<longleftrightarrow> (xr d IDIR i)\<^sup>2 = (xl d IDIR i)\<^sup>2"
  by (simp add: rt_val_def fdiv_def Let_def power2_eq_square)

lemma x2gc_val_spherical:
  "GEOMETRY cfg = SPHERICAL \<Longrightarrow>
   x2gc_val cfg d j = None \<longleftrightarrow> cos (xl d JDIR j) = cos (xr d JDIR j)"
  by (simp add: x2gc_val_def fdiv_def Let_def)

lemma Area_val_Some:
  "AreaX1_val cfg d k j i \<noteq> None" "AreaX2_val cfg d k j i \<noteq> None" "AreaX3_val cfg d k j i \<noteq> None"
  by (cases "GEOMETRY cfg"; simp add: AreaX1_val_def AreaX2_val_def AreaX3_val_def Let_def)+

lemma Volumes_val_Some: "Volumes_val cfg d k j i \<noteq> None"
  by (cases "GEOMETRY cfg") (simp_all add: Volumes_val_geometry)

text \<open>
  Claim C9. In spherical geometry the radius-weighted mean divides by the difference of
  the squared face radii and the polar geometric centre by the difference of the
  cosines of the face angles, each without a guard: the stored value is not a finite
  number exactly when the divisor is zero. On a grid whose radial spacing is the
  distance of the two faces of the cell, if every cell has face radii with distinct
  squares and face angles with distinct cosines, then no division of the geometry
  computation has a zero divisor: every value stored by the seven loops is a finite
  number.
\<close>

theorem divisions_nonzero:
  assumes "GEOMETRY cfg = SPHERICAL"
    and "\<forall>i. 0 \<le> i \<and> i < np_tot d IDIR \<longrightarrow> dx d IDIR i = xr d IDIR i - xl d IDIR i"
  shows "(\<forall>i. 0 \<le> i \<and> i < np_tot d IDIR \<longrightarrow>
               (rt (MakeGeometry cfg d) i = None \<longleftrightarrow> (xr d IDIR i)\<^sup>2 = (xl d IDIR i)\<^sup>2)) \<and>
         (\<forall>j. 0 \<le> j \<and> j < np_tot d JDIR \<longrightarrow>
               (xgc (MakeGeometry cfg d) JDIR j = None \<longleftrightarrow> cos (xl d JDIR j) = cos (xr d JDIR j))) \<and>
         ((\<forall>i. 0 \<le> i \<and> i < np_tot d IDIR \<longrightarrow> (xr d IDIR i)\<^sup>2 \<noteq> (xl d IDIR i)\<^sup>2) \<and>
          (\<forall>j. 0 \<le> j \<and> j < np_tot d JDIR \<longrightarrow> cos (xl d JDIR j) \<noteq> cos (xr d JDIR j)) \<longrightarrow>
            (\<forall>k j i. 0 \<le> k \<and> k < np_tot d KDIR \<and> 0 \<le> j \<and> j < np_tot d JDIR \<and>
                      0 \<le> i \<and> i < np_tot d IDIR \<longrightarrow> dV (MakeGeometry cfg d) k j i \<noteq> None) \<and>
            (\<forall>i. 0 \<le> i \<and> i < np_tot d IDIR \<longrightarrow>
                  xgc (MakeGeometry cfg d) IDIR i \<noteq> None \<and> rt (MakeGeometry cfg d) i \<noteq> None) \<and>
            (\<forall>j. 0 \<le> j \<and> j < np_tot d JDIR \<longrightarrow>
                  xgc (MakeGeometry cfg d) JDIR j \<noteq> None \<and> sm (MakeGeometry cfg d) j \<noteq> None \<and>
                  s_arr (MakeGeometry cfg d) j \<noteq> None \<and> dmu (MakeGeometry cfg d) j \<noteq> None) \<and>
            (\<forall>k. 0 \<le> k \<and> k < np_tot d KDIR \<longrightarrow> xgc (MakeGeometry cfg d) KDIR k \<noteq> None) \<and>
            (\<forall>k j i. 0 \<le> k \<and> k < np_tot d KDIR \<and> 0 \<le> j \<and> j < np_tot d JDIR \<and>
                      0 \<le> i \<and> i < np_tot d IDIR + IOFFSET cfg \<longrightarrow>
                      A_arr (MakeGeometry cfg d) IDIR k j i \<noteq> None) \<and>
            (\<forall>k j i. 0 \<le> k \<and> k < np_tot d KDIR \<and> 0 \<le> j \<and> j < np_tot d JDIR + JOFFSET cfg \<and>
                      0 \<le> i \<and> i < np_tot d IDIR \<longrightarrow>
                      A_arr (MakeGeometry cfg d) JDIR k j i \<noteq> None) \<and>
            (\<forall>k j i. 0 \<le> k \<and> k < np_tot d KDIR + KOFFSET cfg \<and> 0 \<le> j \<and> j < np_tot d JDIR \<and>
                      0 \<le> i \<and> i < np_tot d IDIR \<longrightarrow>
                      A_arr (MakeGeometry cfg d) KDIR k j i \<noteq> None))"
proof -
  have u: "\<forall>i. 0 \<le> i \<and> i < np_tot d IDIR \<longrightarrow>
               (rt (MakeGeometry cfg d) i = None \<longleftrightarrow> (xr d IDIR i)\<^sup>2 = (xl d IDIR i)\<^sup>2)"
    using assms(1) by (simp add: MakeGeometry_rt rt_val_None)
  have v: "\<forall>j. 0 \<le> j \<and> j < np_tot d JDIR \<longrightarrow>
               (xgc (MakeGeometry cfg d) JDIR j = None \<longleftrightarrow> cos (xl d JDIR j) = cos (xr d JDIR j))"
    using assms(1) by (simp add: MakeGeometry_x2gc x2gc_val_spherical)
  have 1: "\<forall>k j i. 0 \<le> k \<and> k < np_tot d KDIR \<and> 0 \<le> j \<and> j < np_tot d JDIR \<and>
                   0 \<le> i \<and> i < np_tot d IDIR \<longrightarrow> dV (MakeGeometry cfg d) k j i \<noteq> None"
    by (simp add: MakeGeometry_dV Volumes_val_Some)
  have 2: "\<forall>i. 0 \<le> i \<and> i < np_tot d IDIR \<longrightarrow>
               xgc (MakeGeometry cfg d) IDIR i \<noteq> None \<and> rt (MakeGeometry cfg d) i \<noteq> None"
    if p: "\<forall>i. 0 \<le> i \<and> i < np_tot d IDIR \<longrightarrow> (xr d IDIR i)\<^sup>2 \<noteq> (xl d IDIR i)\<^sup>2"
  proof (intro allI impI)
    fix i assume r: "0 \<le> i \<and> i < np_tot d IDIR"
    from p r have s: "(xr d IDIR i)\<^sup>2 \<noteq> (xl d IDIR i)\<^sup>2" by blast
    then have "xr d IDIR i \<noteq> xl d IDIR i" by auto
    moreover from assms(2) r have "dx d IDIR i = xr d IDIR i - xl d IDIR i" by blast
    ultimately have "dx d IDIR i \<noteq> 0" by simp
    then have "xgc (MakeGeometry cfg d) IDIR i \<noteq> None"
      using r assms(1) by (simp add: MakeGeometry_x1gc x1gc_val_spherical)
    moreover have "rt (MakeGeometry cfg d) i \<noteq> None" using u r s by blast
    ultimately show "xgc (MakeGeometry cfg d) IDIR i \<noteq> None \<and> rt (MakeGeometry cfg d) i \<noteq> None"
      by simp
  qed
  have 3: "\<forall>j. 0 \<le> j \<and> j < np_tot d JDIR \<longrightarrow>
               xgc (MakeGeometry cfg d) JDIR j \<noteq> None \<and> sm (MakeGeometry cfg d) j \<noteq> None \<and>
               s_arr (MakeGeometry cfg d) j \<noteq> None \<and> dmu (MakeGeometry cfg d) j \<noteq> None"
    if "\<forall>j. 0 \<le> j \<and> j < np_tot d JDIR \<longrightarrow> cos (xl d JDIR j) \<noteq> cos (xr d JDIR j)"
    using assms(1) that
    by (auto simp: MakeGeometry_x2gc MakeGeometry_sm MakeGeometry_s MakeGeometry_dmu
        x2gc_val_spherical)
  have 4: "\<forall>k. 0 \<le> k \<and> k < np_tot d KDIR \<longrightarrow> xgc (MakeGeometry cfg d) KDIR k \<noteq> None"
    by (simp add: MakeGeometry_x3gc)
  have 5: "\<forall>k j i. 0 \<le> k \<and> k < np_tot d KDIR \<and> 0 \<le> j \<and> j < np_tot d JDIR \<and>
                   0 \<le> i \<and> i < np_tot d IDIR + IOFFSET cfg \<longrightarrow>
                   A_arr (MakeGeometry cfg d) IDIR k j i \<noteq> None"
    by (simp add: MakeGeometry_Ax1 Area_val_Some)
  have 6: "\<forall>k j i. 0 \<le> k \<and> k < np_tot d KDIR \<and> 0 \<le> j \<and> j < np_tot d JDIR + JOFFSET cfg \<and>
                   0 \<le> i \<and> i < np_tot d IDIR \<longrightarrow>
                   A_arr (MakeGeometry cfg d) JDIR k j i \<noteq> None"
    by (simp add: MakeGeometry_Ax2 Area_val_Some)
  have 7: "\<forall>k j i. 0 \<le> k \<and> k < np_tot d KDIR + KOFFSET cfg \<and> 0 \<le> j \<and> j < np_tot d JDIR \<and>
                   0 \<le> i \<and> i < np_tot d IDIR \<longrightarrow>
                   A_arr (MakeGeometry cfg d) KDIR k j i \<noteq> None"
    by (simp add: MakeGeometry_Ax3 Area_val_Some)
  show ?thesis
  proof (intro conjI impI)
    show "\<forall>i. 0 \<le> i \<and> i < np_tot d IDIR \<longrightarrow>
               (rt (MakeGeometry cfg d) i = None \<longleftrightarrow> (xr d IDIR i)\<^sup>2 = (xl d IDIR i)\<^sup>2)"
      by (rule u)
    show "\<forall>j. 0 \<le> j \<and> j < np_tot d JDIR \<longrightarrow>
               (xgc (MakeGeometry cfg d) JDIR j = None \<longleftrightarrow> cos (xl d JDIR j) = cos (xr d JDIR j))"
      by (rule v)
  qed (use 1 2 3 4 5 6 7 in blast)+
qed

theorem divisions_nonzero_witness:
  "xgc (MakeGeometry (geom_cfg SPHERICAL 3) shell_grid) IDIR 0 \<noteq> None \<and>
   rt (MakeGeometry (geom_cfg SPHERICAL 3) shell_grid) 0 \<noteq> None \<and>
   xgc (MakeGeometry (geom_cfg SPHERICAL 3) shell_grid) JDIR 0 \<noteq> None"
proof -
  have g: "np_tot shell_grid = (\<lambda>d. 1)" "dx shell_grid IDIR = (\<lambda>i. 1)"
    "xl shell_grid IDIR = (\<lambda>i. 1)" "xr shell_grid IDIR = (\<lambda>i. 2)"
    "xl shell_grid JDIR = (\<lambda>i. 0)" "xr shell_grid JDIR = (\<lambda>i. pi / 2)"
    by (simp_all add: shell_grid_def grid_block_sel)
  have a: "GEOMETRY (geom_cfg SPHERICAL 3) = SPHERICAL" by (simp add: geom_cfg_sel)
  have b: "\<forall>i. 0 \<le> i \<and> i < np_tot shell_grid IDIR \<longrightarrow>
             dx shell_grid IDIR i = xr shell_grid IDIR i - xl shell_grid IDIR i"
    by (simp add: g)
  show ?thesis
    using divisions_nonzero [OF a b] by (simp add: g)
qed


end
